theory Spec2Isabelle
  imports Complex_Main "HOL-Library.Word"
begin

section \<open>Cache manager (src/utils/cache.ts)\<close>

text \<open>
  The cache is a JavaScript \<open>Map\<close> from string keys to entries, iterated in insertion
  order; it is modelled as an association list in that order.  \<open>Date.now()\<close> is an
  argument of every operation that reads the clock (one reading per operation).
  Counters are JavaScript numbers that only ever hold integers; \<open>hitRate\<close> is a
  quotient and is kept as an exact rational (binary rounding is not modelled).
\<close>

record 'v CacheEntry =
  e_key :: string
  e_value :: 'v
  e_timestamp :: int
  e_ttl :: int
  e_hits :: nat

record CacheConfig =
  enabled :: bool
  ttl :: int
  maxSize :: int

record CacheStats =
  hits :: nat
  misses :: nat
  size_stat :: int
  evictions :: nat

record CacheStatsView = CacheStats +
  hitRate :: rat
  currentSize :: nat
  maxSize_view :: int

record 'v CacheManager =
  entries :: "(string \<times> 'v CacheEntry) list"
  stats :: CacheStats
  cache_config :: CacheConfig

definition new_CacheManager :: "CacheConfig \<Rightarrow> 'v CacheManager" where
  "new_CacheManager cfg =
     \<lparr>entries = [],
      stats = \<lparr>hits = 0, misses = 0, size_stat = 0, evictions = 0\<rparr>,
      cache_config = cfg\<rparr>"

definition expired :: "int \<Rightarrow> 'v CacheEntry \<Rightarrow> bool" where
  "expired now e \<longleftrightarrow> now > e_timestamp e + e_ttl e"

definition map_delete :: "string \<Rightarrow> (string \<times> 'a) list \<Rightarrow> (string \<times> 'a) list" where
  "map_delete k xs = filter (\<lambda>p. fst p \<noteq> k) xs"

fun map_put :: "string \<Rightarrow> 'a \<Rightarrow> (string \<times> 'a) list \<Rightarrow> (string \<times> 'a) list" where
  "map_put k v [] = [(k, v)]"
| "map_put k v ((k', v') # xs) =
     (if k' = k then (k, v) # xs else (k', v') # map_put k v xs)"

text \<open>\<open>cleanupExpired\<close>: every expired entry is deleted and \<open>stats.size\<close> decremented.\<close>

definition cleanupExpired :: "int \<Rightarrow> 'v CacheManager \<Rightarrow> 'v CacheManager" where
  "cleanupExpired now c =
     c\<lparr>entries := filter (\<lambda>p. \<not> expired now (snd p)) (entries c),
       stats := (stats c)\<lparr>size_stat :=
         size_stat (stats c) - int (length (filter (\<lambda>p. expired now (snd p)) (entries c)))\<rparr>\<rparr>"

text \<open>
  The loop of \<open>evictLeastUsed\<close>: the accumulator is \<open>(leastUsedKey, leastHits)\<close>,
  \<open>None\<close> standing for \<open>(null, Infinity)\<close>.
\<close>

fun leastUsed :: "(string \<times> 'v CacheEntry) list \<Rightarrow> (string \<times> nat) option \<Rightarrow> (string \<times> nat) option" where
  "leastUsed [] acc = acc"
| "leastUsed ((k, e) # xs) acc =
     leastUsed xs
       (case acc of
          None \<Rightarrow> Some (k, e_hits e)
        | Some (k0, h0) \<Rightarrow> if e_hits e < h0 then Some (k, e_hits e) else Some (k0, h0))"

definition evictLeastUsed :: "'v CacheManager \<Rightarrow> 'v CacheManager" where
  "evictLeastUsed c =
     (case leastUsed (entries c) None of
        None \<Rightarrow> c
      | Some (k, h) \<Rightarrow>
          \<comment> \<open>\<open>if (leastUsedKey)\<close>: the empty string is falsy\<close>
          if k = [] then c
          else c\<lparr>entries := map_delete k (entries c),
                 stats := (stats c)\<lparr>evictions := evictions (stats c) + 1,
                                    size_stat := size_stat (stats c) - 1\<rparr>\<rparr>)"

definition CacheManager_get :: "string \<Rightarrow> int \<Rightarrow> 'v CacheManager \<Rightarrow> 'v option \<times> 'v CacheManager" where
  "CacheManager_get k now c =
     (if \<not> enabled (cache_config c) then (None, c)
      else case map_of (entries c) k of
        None \<Rightarrow> (None, c\<lparr>stats := (stats c)\<lparr>misses := misses (stats c) + 1\<rparr>\<rparr>)
      | Some e \<Rightarrow>
          if now > e_timestamp e + e_ttl e
          then (None, c\<lparr>entries := map_delete k (entries c),
                         stats := (stats c)\<lparr>misses := misses (stats c) + 1,
                                            size_stat := size_stat (stats c) - 1\<rparr>\<rparr>)
          else (Some (e_value e),
                c\<lparr>entries := map_put k (e\<lparr>e_hits := e_hits e + 1\<rparr>) (entries c),
                  stats := (stats c)\<lparr>hits := hits (stats c) + 1\<rparr>\<rparr>))"

definition CacheManager_set :: "string \<Rightarrow> 'v \<Rightarrow> int option \<Rightarrow> int \<Rightarrow> 'v CacheManager \<Rightarrow> 'v CacheManager" where
  "CacheManager_set k v ttl_arg now c =
     (if \<not> enabled (cache_config c) then c
      else
        let c1 = cleanupExpired now c;
            c2 = (if int (length (entries c1)) \<ge> maxSize (cache_config c1)
                  then evictLeastUsed c1 else c1);
            entry = \<lparr>e_key = k, e_value = v, e_timestamp = now,
                     e_ttl = (case ttl_arg of
                                None \<Rightarrow> ttl (cache_config c2)
                              | Some t \<Rightarrow> if t = 0 then ttl (cache_config c2) else t),
                     e_hits = 0\<rparr>;
            es = map_put k entry (entries c2)
        in c2\<lparr>entries := es, stats := (stats c2)\<lparr>size_stat := int (length es)\<rparr>\<rparr>)"

definition getStats :: "'v CacheManager \<Rightarrow> CacheStatsView" where
  "getStats c =
     CacheStats.extend (stats c)
       (CacheStatsView.fields
          (if hits (stats c) + misses (stats c) > 0
           then (of_nat (hits (stats c)) / of_nat (hits (stats c) + misses (stats c))) * 100
           else 0)
          (length (entries c))
          (maxSize (cache_config c)))"

text \<open>A sequence of \<open>get\<close> and \<open>set\<close> calls, and the answers its \<open>get\<close>s receive.\<close>

datatype 'v cache_op = Get string int | Set string 'v "int option" int

fun run_ops :: "'v cache_op list \<Rightarrow> 'v CacheManager \<Rightarrow> 'v option list \<times> 'v CacheManager" where
  "run_ops [] c = ([], c)"
| "run_ops (Get k now # ops) c =
     (case CacheManager_get k now c of
        (r, c') \<Rightarrow> (case run_ops ops c' of (rs, c'') \<Rightarrow> (r # rs, c'')))"
| "run_ops (Set k v t now # ops) c = run_ops ops (CacheManager_set k v t now c)"

text \<open>A concrete session used to exercise the statistics: one \<open>set\<close>, then three \<open>get\<close>s.\<close>

definition demo_cache_config :: CacheConfig where
  "demo_cache_config = \<lparr>enabled = True, ttl = 300000, maxSize = 1000\<rparr>"

definition one_hit_ops :: "nat cache_op list" where
  "one_hit_ops = [Set ''k'' 7 None 0, Get ''k'' 1]"

definition one_hit_cache :: "nat CacheManager" where
  "one_hit_cache = snd (run_ops one_hit_ops (new_CacheManager demo_cache_config))"

definition mixed_ops :: "nat cache_op list" where
  "mixed_ops = [Set ''k'' 7 None 0, Get ''k'' 1, Get ''j'' 2, Get ''j'' 3]"

definition mixed_run :: "nat option list \<times> nat CacheManager" where
  "mixed_run = run_ops mixed_ops (new_CacheManager demo_cache_config)"

section \<open>JavaScript values\<close>

subsection \<open>Numbers\<close>

text \<open>
  A JavaScript number is \<open>NaN\<close> or a value, kept as an exact rational: binary rounding
  and the overflow to \<open>Infinity\<close> are not modelled.  Comparisons with \<open>NaN\<close> are
  false, arithmetic with \<open>NaN\<close> is \<open>NaN\<close>.
\<close>

datatype jsnum = NaN | Num rat

fun js_add :: "jsnum \<Rightarrow> jsnum \<Rightarrow> jsnum" where
  "js_add (Num a) (Num b) = Num (a + b)"
| "js_add _ _ = NaN"

fun js_sub :: "jsnum \<Rightarrow> jsnum \<Rightarrow> jsnum" where
  "js_sub (Num a) (Num b) = Num (a - b)"
| "js_sub _ _ = NaN"

fun js_mul :: "jsnum \<Rightarrow> jsnum \<Rightarrow> jsnum" where
  "js_mul (Num a) (Num b) = Num (a * b)"
| "js_mul _ _ = NaN"

text \<open>Every division of the modelled code is guarded by a positive divisor.\<close>

fun js_div :: "jsnum \<Rightarrow> jsnum \<Rightarrow> jsnum" where
  "js_div (Num a) (Num b) = (if b = 0 then NaN else Num (a / b))"
| "js_div _ _ = NaN"

fun js_abs :: "jsnum \<Rightarrow> jsnum" where
  "js_abs (Num a) = Num \<bar>a\<bar>"
| "js_abs NaN = NaN"

fun js_lt :: "jsnum \<Rightarrow> jsnum \<Rightarrow> bool" where
  "js_lt (Num a) (Num b) = (a < b)"
| "js_lt _ _ = False"

fun js_gt :: "jsnum \<Rightarrow> jsnum \<Rightarrow> bool" where
  "js_gt (Num a) (Num b) = (a > b)"
| "js_gt _ _ = False"

fun isNaN :: "jsnum \<Rightarrow> bool" where
  "isNaN NaN = True"
| "isNaN (Num a) = False"

text \<open>Truthiness of a number, as in \<open>x || 1\<close>: \<open>0\<close> and \<open>NaN\<close> are falsy.\<close>

fun truthy :: "jsnum \<Rightarrow> bool" where
  "truthy NaN = False"
| "truthy (Num a) = (a \<noteq> 0)"

subsection \<open>Strings\<close>

text \<open>
  A JavaScript string is a sequence of UTF-16 code units.  The model keeps the strings
  whose code units are below 256 (ASCII and the Latin-1 supplement, which holds the
  accented letters, the no-break space and the signs the patterns name): a \<open>char\<close>
  is the code unit of the same number.
\<close>

definition code :: "char \<Rightarrow> nat" where
  "code c = of_char c"

definition is_digit :: "char \<Rightarrow> bool" where
  "is_digit c \<longleftrightarrow> 48 \<le> code c \<and> code c \<le> 57"

text \<open>\<open>\s\<close>, and the characters \<open>trim()\<close> strips: tab, LF, VT, FF, CR, space, NBSP.\<close>

definition is_space :: "char \<Rightarrow> bool" where
  "is_space c \<longleftrightarrow> code c \<in> {9, 10, 11, 12, 13, 32, 160}"

text \<open>\<open>\w\<close> is \<open>[A-Za-z0-9_]\<close>.\<close>

definition is_upper :: "char \<Rightarrow> bool" where
  "is_upper c \<longleftrightarrow> 65 \<le> code c \<and> code c \<le> 90"

definition is_lower :: "char \<Rightarrow> bool" where
  "is_lower c \<longleftrightarrow> 97 \<le> code c \<and> code c \<le> 122"

definition is_word :: "char \<Rightarrow> bool" where
  "is_word c \<longleftrightarrow> is_upper c \<or> is_lower c \<or> is_digit c \<or> code c = 95"

text \<open>The letter class of the name heuristics: \<open>A-Z\<close>, \<open>a-z\<close> and U+00C1 to U+00FF.\<close>

definition is_letter :: "char \<Rightarrow> bool" where
  "is_letter c \<longleftrightarrow> is_upper c \<or> is_lower c \<or> (193 \<le> code c \<and> code c \<le> 255)"

definition is_newline :: "char \<Rightarrow> bool" where
  "is_newline c \<longleftrightarrow> code c = 10"

text \<open>The line terminators below 256, which \<open>.\<close> does not match.\<close>

definition is_line_terminator :: "char \<Rightarrow> bool" where
  "is_line_terminator c \<longleftrightarrow> code c = 10 \<or> code c = 13"

text \<open>
  \<open>toLowerCase\<close> on one code unit: \<open>A-Z\<close> and U+00C0 to U+00DE except the
  multiplication sign U+00D7 move down by 32.
\<close>

definition lower_char :: "char \<Rightarrow> char" where
  "lower_char c =
     (if is_upper c \<or> (192 \<le> code c \<and> code c \<le> 222 \<and> code c \<noteq> 215)
      then char_of (code c + 32) else c)"

definition toLowerCase :: "string \<Rightarrow> string" where
  "toLowerCase s = map lower_char s"

definition trim :: "string \<Rightarrow> string" where
  "trim s = rev (dropWhile is_space (rev (dropWhile is_space s)))"

text \<open>\<open>s.split('\n')\<close>: the accumulator is the current piece.\<close>

fun split_from :: "string \<Rightarrow> string \<Rightarrow> string list" where
  "split_from cur [] = [cur]"
| "split_from cur (c # cs) =
     (if is_newline c then cur # split_from [] cs else split_from (cur @ [c]) cs)"

definition split_lines :: "string \<Rightarrow> string list" where
  "split_lines s = split_from [] s"

text \<open>\<open>xs.join('\n')\<close>.\<close>

fun join_lines :: "string list \<Rightarrow> string" where
  "join_lines [] = []"
| "join_lines [x] = x"
| "join_lines (x # y # ys) = x @ CHR 0x0A # join_lines (y # ys)"

text \<open>\<open>s.padStart(2, '0')\<close>.\<close>

definition padStart2 :: "string \<Rightarrow> string" where
  "padStart2 s = replicate (2 - length s) (CHR ''0'') @ s"

text \<open>\<open>s.replace(',', '.')\<close>: a string pattern replaces its first occurrence only.\<close>

fun replace_first_comma :: "string \<Rightarrow> string" where
  "replace_first_comma [] = []"
| "replace_first_comma (c # cs) =
     (if c = CHR '','' then CHR ''.'' # cs else c # replace_first_comma cs)"

subsection \<open>parseFloat\<close>

text \<open>
  \<open>parseFloat\<close> skips leading white space, reads an optional sign, digits, and an
  optional point with digits, and ignores what follows; without any digit the result is
  \<open>NaN\<close>.  Exponents and the literal \<open>Infinity\<close> are not modelled: every caller
  passes text matched by \<open>[\d.,]+\<close>.
\<close>

definition digit_val :: "char \<Rightarrow> nat" where
  "digit_val c = code c - 48"

definition digits_val :: "string \<Rightarrow> nat" where
  "digits_val ds = foldl (\<lambda>n c. 10 * n + digit_val c) 0 ds"

definition parse_unsigned :: "string \<Rightarrow> jsnum" where
  "parse_unsigned s =
     (let ip = takeWhile is_digit s;
          r = dropWhile is_digit s;
          fp = (case r of [] \<Rightarrow> []
                | c # cs \<Rightarrow> if c = CHR ''.'' then takeWhile is_digit cs else [])
      in if ip = [] \<and> fp = [] then NaN
         else Num (of_nat (digits_val ip) + of_nat (digits_val fp) / 10 ^ length fp))"

definition parseFloat :: "string \<Rightarrow> jsnum" where
  "parseFloat s =
     (case dropWhile is_space s of
        [] \<Rightarrow> NaN
      | c # cs \<Rightarrow>
          if c = CHR ''-'' then js_sub (Num 0) (parse_unsigned cs)
          else if c = CHR ''+'' then parse_unsigned cs
          else parse_unsigned (c # cs))"

section \<open>Regular expressions\<close>

text \<open>
  A regular expression is embedded as a backtracking matcher: from a position in the
  text it returns every way to match, in the order the JavaScript engine tries them
  (greedy quantifiers longest first, alternatives left to right), so the head of the
  list is the engine's match.  A position is the text to the left (reversed, for
  \<open>\b\<close> and \<open>^\<close>), the text to the right, and the capture groups set so far.
\<close>

type_synonym caps = "(nat \<times> string) list"
type_synonym mstate = "string \<times> string \<times> caps"
type_synonym rx = "mstate \<Rightarrow> mstate list"

definition rx_eps :: rx where
  "rx_eps st = [st]"

definition rx_char :: "(char \<Rightarrow> bool) \<Rightarrow> rx" where
  "rx_char P st =
     (case st of (l, r, g) \<Rightarrow>
        (case r of [] \<Rightarrow> [] | c # cs \<Rightarrow> if P c then [(c # l, cs, g)] else []))"

definition rx_seq :: "rx \<Rightarrow> rx \<Rightarrow> rx" where
  "rx_seq a b st = concat (map b (a st))"

definition rx_alt :: "rx \<Rightarrow> rx \<Rightarrow> rx" where
  "rx_alt a b st = a st @ b st"

primrec rx_seqs :: "rx list \<Rightarrow> rx" where
  "rx_seqs [] = rx_eps"
| "rx_seqs (a # as) = rx_seq a (rx_seqs as)"

primrec rx_alts :: "rx list \<Rightarrow> rx" where
  "rx_alts [] = (\<lambda>st. [])"
| "rx_alts (a # as) = rx_alt a (rx_alts as)"

text \<open>\<open>a?\<close>, greedy.\<close>

definition rx_opt :: "rx \<Rightarrow> rx" where
  "rx_opt a = rx_alt a rx_eps"

text \<open>
  \<open>a*\<close>, greedy.  An iteration that consumes nothing is rejected, as in JavaScript, so
  the length of the remaining text bounds the number of iterations.
\<close>

primrec rx_star_fuel :: "nat \<Rightarrow> rx \<Rightarrow> rx" where
  "rx_star_fuel 0 a st = [st]"
| "rx_star_fuel (Suc n) a st =
     concat (map (\<lambda>st'. if length (fst (snd st')) < length (fst (snd st))
                          then rx_star_fuel n a st' else []) (a st)) @ [st]"

definition rx_star :: "rx \<Rightarrow> rx" where
  "rx_star a st = rx_star_fuel (length (fst (snd st))) a st"

definition rx_plus :: "rx \<Rightarrow> rx" where
  "rx_plus a = rx_seq a (rx_star a)"

text \<open>\<open>a+?\<close>, lazy: the shortest repetition first.\<close>

primrec rx_lazy_star_fuel :: "nat \<Rightarrow> rx \<Rightarrow> rx" where
  "rx_lazy_star_fuel 0 a st = [st]"
| "rx_lazy_star_fuel (Suc n) a st =
     st # concat (map (\<lambda>st'. if length (fst (snd st')) < length (fst (snd st))
                               then rx_lazy_star_fuel n a st' else []) (a st))"

definition rx_lazy_plus :: "rx \<Rightarrow> rx" where
  "rx_lazy_plus a = rx_seq a (\<lambda>st. rx_lazy_star_fuel (length (fst (snd st))) a st)"

text \<open>\<open>a{m,n}\<close>, greedy.\<close>

fun rx_rep :: "nat \<Rightarrow> nat \<Rightarrow> rx \<Rightarrow> rx" where
  "rx_rep 0 0 a = rx_eps"
| "rx_rep 0 (Suc n) a = rx_opt (rx_seq a (rx_rep 0 n a))"
| "rx_rep (Suc m) 0 a = rx_eps"
| "rx_rep (Suc m) (Suc n) a = rx_seq a (rx_rep m n a)"

text \<open>A literal, and a literal under the flag \<open>i\<close> (ASCII letters fold).\<close>

definition rx_lit :: "string \<Rightarrow> rx" where
  "rx_lit s = rx_seqs (map (\<lambda>k. rx_char (\<lambda>c. c = k)) s)"

definition fold_ascii :: "char \<Rightarrow> char" where
  "fold_ascii c = (if is_upper c then char_of (code c + 32) else c)"

definition rx_lit_ci :: "string \<Rightarrow> rx" where
  "rx_lit_ci s = rx_seqs (map (\<lambda>k. rx_char (\<lambda>c. fold_ascii c = fold_ascii k)) s)"

definition rx_digit :: rx where
  "rx_digit = rx_char is_digit"

definition rx_space :: rx where
  "rx_space = rx_char is_space"

definition rx_dot :: rx where
  "rx_dot = rx_char (\<lambda>c. \<not> is_line_terminator c)"

text \<open>\<open>\b\<close>: exactly one of the two neighbours is a word character.\<close>

definition word_at :: "string \<Rightarrow> bool" where
  "word_at s = (case s of [] \<Rightarrow> False | c # cs \<Rightarrow> is_word c)"

definition rx_wordb :: rx where
  "rx_wordb st = (case st of (l, r, g) \<Rightarrow> if word_at l \<noteq> word_at r then [st] else [])"

text \<open>\<open>^\<close> and \<open>$\<close>, without and with the flag \<open>m\<close>.\<close>

definition rx_bol :: rx where
  "rx_bol st = (case st of (l, r, g) \<Rightarrow> if l = [] then [st] else [])"

definition rx_eol :: rx where
  "rx_eol st = (case st of (l, r, g) \<Rightarrow> if r = [] then [st] else [])"

definition rx_bol_m :: rx where
  "rx_bol_m st =
     (case st of (l, r, g) \<Rightarrow>
        (case l of [] \<Rightarrow> [st] | c # cs \<Rightarrow> if is_line_terminator c then [st] else []))"

text \<open>The text matched between two positions, and a capture group.\<close>

definition matched :: "string \<Rightarrow> string \<Rightarrow> string" where
  "matched l l' = rev (take (length l' - length l) l')"

definition rx_group :: "nat \<Rightarrow> rx \<Rightarrow> rx" where
  "rx_group i a st =
     (case st of (l, r, g) \<Rightarrow>
        map (\<lambda>st'. case st' of (l', r', g') \<Rightarrow> (l', r', (i, matched l l') # g')) (a st))"

definition cap :: "caps \<Rightarrow> nat \<Rightarrow> string option" where
  "cap g i = map_of g i"

text \<open>
  \<open>exec\<close> from a position: the leftmost position at which the expression matches, with
  the text to its left and the state after the match.
\<close>

fun rx_search :: "rx \<Rightarrow> string \<Rightarrow> string \<Rightarrow> (string \<times> mstate) option" where
  "rx_search a l [] = (case a (l, [], []) of [] \<Rightarrow> None | m # ms \<Rightarrow> Some (l, m))"
| "rx_search a l (c # cs) =
     (case a (l, c # cs, []) of [] \<Rightarrow> rx_search a (c # l) cs | m # ms \<Rightarrow> Some (l, m))"

text \<open>\<open>re.test(s)\<close> and \<open>s.match(re)\<close> for an expression without the flag \<open>g\<close>.\<close>

definition rx_test :: "rx \<Rightarrow> string \<Rightarrow> bool" where
  "rx_test a s = (rx_search a [] s \<noteq> None)"

definition rx_match :: "rx \<Rightarrow> string \<Rightarrow> (string \<times> caps) option" where
  "rx_match a s =
     (case rx_search a [] s of
        None \<Rightarrow> None
      | Some (l, l', r', g) \<Rightarrow> Some (matched l l', g))"

text \<open>
  Every match from a position on, left to right without overlap (\<open>s.match(re)\<close> and
  \<open>s.matchAll(re)\<close> with the flag \<open>g\<close>).  After an empty match the engine moves one
  code unit on.
\<close>

fun rx_match_all :: "rx \<Rightarrow> string \<Rightarrow> string \<Rightarrow> (string \<times> caps) list" where
  "rx_match_all a l [] =
     (case a (l, [], []) of [] \<Rightarrow> [] | (l', r', g) # ms \<Rightarrow> [(matched l l', g)])"
| "rx_match_all a l (c # cs) =
     (case a (l, c # cs, []) of
        [] \<Rightarrow> rx_match_all a (c # l) cs
      | (l', r', g) # ms \<Rightarrow>
          (matched l l', g) #
          (if length r' < Suc (length cs) then rx_match_all a l' r'
           else rx_match_all a (c # l) cs))"

text \<open>
  \<open>s.replace(re, f)\<close> with the flag \<open>g\<close>: \<open>f\<close> receives the match and its groups.
\<close>

fun rx_replace :: "rx \<Rightarrow> (string \<Rightarrow> caps \<Rightarrow> string) \<Rightarrow> string \<Rightarrow> string \<Rightarrow> string" where
  "rx_replace a f l [] =
     (case a (l, [], []) of [] \<Rightarrow> [] | (l', r', g) # ms \<Rightarrow> f (matched l l') g)"
| "rx_replace a f l (c # cs) =
     (case a (l, c # cs, []) of
        [] \<Rightarrow> c # rx_replace a f (c # l) cs
      | (l', r', g) # ms \<Rightarrow>
          (if length r' < Suc (length cs) then f (matched l l') g @ rx_replace a f l' r'
           else f (matched l l') g @ c # rx_replace a f (c # l) cs))"

definition replace_all :: "rx \<Rightarrow> (string \<Rightarrow> caps \<Rightarrow> string) \<Rightarrow> string \<Rightarrow> string" where
  "replace_all a f s = rx_replace a f [] s"

section \<open>Number extraction\<close>

text \<open>
  The loop shared by \<open>Preprocessor.extractNumbers\<close> and \<open>BasePlugin.extractNumbers\<close>:
  a match of two or three digits is pushed as it is, a match of four digits as
  \<open>substring(0, 2)\<close> and \<open>substring(2, 4)\<close>, any other match is dropped.
\<close>

definition push_match :: "string \<Rightarrow> string list" where
  "push_match m =
     (if length m = 2 then [m]
      else if length m = 3 then [m]
      else if length m = 4 then [take 2 m, take 2 (drop 2 m)]
      else [])"

text \<open>\<open>/\d{1,4}/g\<close> (preprocessor and validator) and \<open>/\b\d{1,4}\b/g\<close> (plugins).\<close>

definition DIGITS_1_4 :: rx where
  "DIGITS_1_4 = rx_rep 1 4 rx_digit"

definition WORD_DIGITS_1_4 :: rx where
  "WORD_DIGITS_1_4 = rx_seqs [rx_wordb, rx_rep 1 4 rx_digit, rx_wordb]"

definition Preprocessor_extractNumbers :: "string \<Rightarrow> string list" where
  "Preprocessor_extractNumbers text =
     concat (map (\<lambda>m. push_match (fst m)) (rx_match_all DIGITS_1_4 [] text))"

definition BasePlugin_extractNumbers :: "string \<Rightarrow> string list" where
  "BasePlugin_extractNumbers text =
     concat (map (\<lambda>m. push_match (fst m)) (rx_match_all WORD_DIGITS_1_4 [] text))"

section \<open>Name-line heuristics\<close>

text \<open>\<open>/\b(con|parle|candado|total|fijo|corrido|al|pr|v|d|t)\b/i\<close>\<close>

definition RESERVED :: rx where
  "RESERVED =
     rx_seqs [rx_wordb,
              rx_group 1 (rx_alts (map rx_lit_ci
                [''con'', ''parle'', ''candado'', ''total'', ''fijo'', ''corrido'',
                 ''al'', ''pr'', ''v'', ''d'', ''t''])),
              rx_wordb]"

text \<open>\<open>/^\d/\<close>\<close>

definition STARTS_WITH_DIGIT :: rx where
  "STARTS_WITH_DIGIT = rx_seqs [rx_bol, rx_digit]"

definition letterCount :: "string \<Rightarrow> nat" where
  "letterCount s = length (filter is_letter s)"

text \<open>
  \<open>Validator.isNombreJugador\<close>, which the block segmenter calls.  The quotient of two
  string lengths is compared with \<open>0.6\<close> exactly.
\<close>

definition Validator_isNombreJugador :: "string \<Rightarrow> bool" where
  "Validator_isNombreJugador line =
     (let trimmed = trim line in
      if trimmed = [] \<or> length trimmed < 2 then False
      else if rx_test STARTS_WITH_DIGIT trimmed then False
      else if rx_test RESERVED trimmed then False
      else (of_nat (letterCount trimmed) / of_nat (length trimmed) :: rat) > 6 / 10)"

text \<open>\<open>Preprocessor.isNombreJugador\<close>, which decides whether the first line keeps its case.\<close>

definition Preprocessor_isNombreJugador :: "string \<Rightarrow> bool" where
  "Preprocessor_isNombreJugador line =
     (let trimmed = trim line in
      if trimmed = [] \<or> length trimmed < 2 \<or> length trimmed > 35 then False
      else if rx_test STARTS_WITH_DIGIT trimmed then False
      else if rx_test RESERVED trimmed then False
      else (of_nat (letterCount trimmed) / of_nat (length trimmed) :: rat) > 7 / 10)"

definition thirty_six_As :: string where
  "thirty_six_As = ''AAAAAAAAAAAAAAAAAAAAAAAAAAAAAAAAAAAA''"

section \<open>Data model (src/types.ts)\<close>

datatype TipoApuesta = Fijo | Corrido | Parle | Centena | Candado | Especial | Volteo | Rango

text \<open>
  Messages are template strings; the model keeps which template it is and the values
  put into it, not the rendered text (rendering a number is not modelled).  An
  exception is known to the parser by its message only.
\<close>

datatype message =
    TextoVacio                          \<comment> \<open>\<open>Texto vacio\<close>\<close>
  | FormatoTotalInvalido nat            \<comment> \<open>\<open>Linea n: Formato de total invalido\<close>\<close>
  | SinNumerosLinea nat                 \<comment> \<open>\<open>Linea n: No se encontraron numeros\<close>\<close>
  | MontoNegativoLinea nat jsnum        \<comment> \<open>\<open>Linea n: Monto negativo no permitido: a\<close>\<close>
  | NumeroInvalidoLinea nat string      \<comment> \<open>\<open>Linea n: Numero invalido: s\<close>\<close>
  | ParleCandadoMinimo nat              \<comment> \<open>\<open>Linea n: Parle/candado requiere al menos 2 numeros\<close>\<close>
  | DemasiadosJugadores nat int         \<comment> \<open>\<open>Demasiados jugadores: n (maximo: m)\<close>\<close>
  | TotalNegativo                       \<comment> \<open>\<open>Total calculado negativo\<close>\<close>
  | DetalleLinea "nat option" message   \<comment> \<open>\<open>Detalle linea n: e\<close>\<close>
  | TipoInvalido TipoApuesta            \<comment> \<open>\<open>Tipo de apuesta invalido: t\<close>\<close>
  | SinNumerosApuesta                   \<comment> \<open>\<open>Sin numeros en la apuesta\<close>\<close>
  | NumeroInvalido string               \<comment> \<open>\<open>Numero invalido: s\<close>\<close>
  | MontoInvalido                       \<comment> \<open>\<open>Monto invalido\<close>\<close>
  | MontoNegativo jsnum                 \<comment> \<open>\<open>Monto negativo: a\<close>\<close>
  | MontoUnitarioInvalido               \<comment> \<open>\<open>Monto unitario invalido\<close>\<close>
  | ParleSinCombinaciones               \<comment> \<open>\<open>Parle sin numero de combinaciones\<close>\<close>
  | CandadoSinCombinaciones             \<comment> \<open>\<open>Candado sin numero de combinaciones\<close>\<close>
  | CentenasInvalidas "string list"     \<comment> \<open>\<open>Centenas invalidas: ...\<close>\<close>
  | DiferenciaTotales jsnum jsnum jsnum \<comment> \<open>\<open>Diferencia entre total calculado (c) y declarado (d): x\<close>\<close>
  | ValidacionFallida                   \<comment> \<open>\<open>Validacion de sintaxis fallida\<close>\<close>
  | MaxJugadoresExcedido nat int        \<comment> \<open>\<open>Numero maximo de jugadores excedido: n > m\<close>\<close>
  | ErrorBloque nat message             \<comment> \<open>\<open>Error procesando bloque n: e\<close>\<close>
  | DeJugador string message            \<comment> \<open>\<open>[jugador] e\<close>\<close>
  | ErrorLinea nat message              \<comment> \<open>\<open>Linea n: e\<close>\<close>
  | PluginNoInicializado string         \<comment> \<open>\<open>Plugin p no esta inicializado\<close>\<close>
  | TypeError                           \<comment> \<open>a method called on \<open>undefined\<close>\<close>
  | Otro string                         \<comment> \<open>any other message\<close>

record ParserConfig =
  strictMode :: bool
  autoExpand :: bool
  validateTotals :: bool
  maxJugadores :: int
  decimalSeparator :: string
  allowNegative :: bool
  maxMonto :: jsnum
  defaultMontoFijo :: jsnum
  defaultMontoCorrido :: jsnum
  cache_options :: CacheConfig

text \<open>\<open>DEFAULT_CONFIG\<close> of the parser.\<close>

definition DEFAULT_CONFIG :: ParserConfig where
  "DEFAULT_CONFIG =
     \<lparr>strictMode = False, autoExpand = True, validateTotals = True, maxJugadores = 100,
      decimalSeparator = ''.'', allowNegative = False, maxMonto = Num 1000000,
      defaultMontoFijo = Num 1, defaultMontoCorrido = Num 0,
      cache_options = \<lparr>enabled = True, ttl = 5 * 60 * 1000, maxSize = 1000\<rparr>\<rparr>"

record DetalleApuesta =
  tipo :: TipoApuesta
  numeros :: "string list"
  monto :: jsnum
  montoUnitario :: jsnum
  combinaciones :: "nat option"
  pares :: "(string \<times> string) list option"
  lineaOriginal :: string
  lineaNumero :: "nat option"

record Jugada =
  jugador :: string
  totalCalculado :: jsnum
  totalDeclarado :: "jsnum option"
  lineas :: "string list"
  detalles :: "DetalleApuesta list"
  isValid :: bool
  warnings :: "message list"
  errors :: "message list"
  lineCount :: nat
  numberCount :: nat
  betTypes :: "TipoApuesta list"
  bloqueIndex :: "nat option"

record PluginContext =
  ctx_config :: ParserConfig
  ctx_jugador :: string
  ctx_totalDeclarado :: "jsnum option"
  ctx_lineas :: "string list"

section \<open>Plugin base class (plugins/base-plugin.ts)\<close>

text \<open>
  The \<open>extras\<close> arguments are \<open>Partial\<close> objects spread over the result; the model
  carries the fields that the callers in the source set.
\<close>

record DetalleExtras =
  x_monto :: "jsnum option"
  x_combinaciones :: "nat option"
  x_pares :: "(string \<times> string) list option"

definition no_extras :: DetalleExtras where
  "no_extras = \<lparr>x_monto = None, x_combinaciones = None, x_pares = None\<rparr>"

definition createDetalle ::
  "TipoApuesta \<Rightarrow> string list \<Rightarrow> jsnum \<Rightarrow> string \<Rightarrow> nat option \<Rightarrow> DetalleExtras \<Rightarrow> DetalleApuesta" where
  "createDetalle t ns unitario linea numero extras =
     (let m = js_mul (Num (of_nat (length ns))) unitario in
      \<lparr>tipo = t, numeros = ns,
       monto = (case x_monto extras of None \<Rightarrow> m | Some m' \<Rightarrow> m'),
       montoUnitario = unitario,
       combinaciones = x_combinaciones extras,
       pares = x_pares extras,
       lineaOriginal = linea, lineaNumero = numero\<rparr>)"

record JugadaExtras =
  x_warnings :: "message list option"
  x_errors :: "message list option"

definition no_jugada_extras :: JugadaExtras where
  "no_jugada_extras = \<lparr>x_warnings = None, x_errors = None\<rparr>"

text \<open>\<open>detalles.reduce((sum, d) => sum + d.monto, 0)\<close>\<close>

definition sum_montos :: "DetalleApuesta list \<Rightarrow> jsnum" where
  "sum_montos ds = foldl (\<lambda>s d. js_add s (monto d)) (Num 0) ds"

definition createJugada ::
  "string \<Rightarrow> DetalleApuesta list \<Rightarrow> jsnum option \<Rightarrow> string list \<Rightarrow> JugadaExtras \<Rightarrow> Jugada" where
  "createJugada j ds declarado ls extras =
     (let total = sum_montos ds in
      \<lparr>jugador = j, totalCalculado = total, totalDeclarado = declarado, lineas = ls,
       detalles = ds,
       isValid = (case declarado of
                    None \<Rightarrow> True
                  | Some d \<Rightarrow> js_lt (js_abs (js_sub total d)) (Num (1 / 100))),
       warnings = (case x_warnings extras of None \<Rightarrow> [] | Some w \<Rightarrow> w),
       errors = (case x_errors extras of None \<Rightarrow> [] | Some e \<Rightarrow> e),
       lineCount = length ls,
       numberCount = foldl (\<lambda>s d. s + length (numeros d)) 0 ds,
       betTypes = remdups (map tipo ds),
       bloqueIndex = None\<rparr>)"

text \<open>
  A plugin instance holds the configuration it was initialised with, or none;
  \<open>ensureInitialized\<close> throws without one.
\<close>

definition ensureInitialized :: "string \<Rightarrow> ParserConfig option \<Rightarrow> message + unit" where
  "ensureInitialized name cfg =
     (case cfg of None \<Rightarrow> Inl (PluginNoInicializado name) | Some c \<Rightarrow> Inr ())"

text \<open>\<open>this.config?.defaultMontoFijo || 1\<close>\<close>

definition default_monto :: "ParserConfig option \<Rightarrow> jsnum" where
  "default_monto cfg =
     (case cfg of
        None \<Rightarrow> Num 1
      | Some c \<Rightarrow> if truthy (defaultMontoFijo c) then defaultMontoFijo c else Num 1)"

definition calculateCombinations :: "nat \<Rightarrow> nat" where
  "calculateCombinations n = (if n < 2 then 0 else (n * (n - 1)) div 2)"

section \<open>Default plugins (plugins/default-plugins.ts)\<close>

text \<open>The amount \<open>\d+(?:[.,]\d+)?\<close> that every betting pattern uses.\<close>

definition AMOUNT :: rx where
  "AMOUNT =
     rx_seq (rx_plus rx_digit)
       (rx_opt (rx_seq (rx_char (\<lambda>c. c = CHR ''.'' \<or> c = CHR '','')) (rx_plus rx_digit)))"

text \<open>\<open>\d{2}(?:\s+\d{2})*\<close>\<close>

definition PAIRS_OF_DIGITS :: rx where
  "PAIRS_OF_DIGITS =
     rx_seq (rx_rep 2 2 rx_digit) (rx_star (rx_seq (rx_plus rx_space) (rx_rep 2 2 rx_digit)))"

text \<open>
  \<open>APUESTA_PATTERNS.CANDADO.pattern\<close>:
  \<open>/(\d{2}(?:\s+\d{2})*)\s+con\s+(\d+(?:[.,]\d+)?)(?:\s+y\s+(\d+(?:[.,]\d+)?))?\s+candado\s+(?:con\s+)?(\d+(?:[.,]\d+)?)/i\<close>
\<close>

definition APUESTA_CANDADO :: rx where
  "APUESTA_CANDADO =
     rx_seqs [rx_group 1 PAIRS_OF_DIGITS,
              rx_plus rx_space, rx_lit_ci ''con'', rx_plus rx_space,
              rx_group 2 AMOUNT,
              rx_opt (rx_seqs [rx_plus rx_space, rx_lit_ci ''y'', rx_plus rx_space,
                               rx_group 3 AMOUNT]),
              rx_plus rx_space, rx_lit_ci ''candado'', rx_plus rx_space,
              rx_opt (rx_seq (rx_lit_ci ''con'') (rx_plus rx_space)),
              rx_group 4 AMOUNT]"

text \<open>
  The text of a capture group.  It is read only for groups that are not optional in
  their pattern, which every match sets; an optional group is tested with \<open>cap\<close>.
\<close>

definition group_text :: "caps \<Rightarrow> nat \<Rightarrow> string" where
  "group_text g i = (case cap g i of None \<Rightarrow> [] | Some s \<Rightarrow> s)"

text \<open>\<open>parseFloat(s.replace(',', '.'))\<close>\<close>

definition amount_of :: "string \<Rightarrow> jsnum" where
  "amount_of s = parseFloat (replace_first_comma s)"

definition candado_detalles ::
  "string \<Rightarrow> string list \<Rightarrow> jsnum \<Rightarrow> jsnum option \<Rightarrow> jsnum \<Rightarrow> DetalleApuesta list" where
  "candado_detalles text ns montoFijo montoCorrido montoCandado =
     (if length ns \<ge> 2 then
        (if \<not> isNaN montoFijo then [createDetalle Fijo ns montoFijo text None no_extras] else []) @
        (case montoCorrido of
           None \<Rightarrow> []
         | Some c \<Rightarrow> if \<not> isNaN c then [createDetalle Corrido ns c text None no_extras] else []) @
        (let combos = calculateCombinations (length ns);
             unitario = (if combos > 0 then js_div montoCandado (Num (of_nat combos)) else Num 0)
         in [createDetalle Candado ns unitario text None
               \<lparr>x_monto = Some montoCandado, x_combinaciones = Some combos, x_pares = None\<rparr>])
      else [])"

definition CandadoPlugin_process ::
  "ParserConfig option \<Rightarrow> string \<Rightarrow> PluginContext \<Rightarrow> message + Jugada" where
  "CandadoPlugin_process cfg text ctx =
     (case ensureInitialized ''candado-plugin'' cfg of
        Inl e \<Rightarrow> Inl e
      | Inr u \<Rightarrow>
          Inr (createJugada (ctx_jugador ctx)
                 (case rx_match APUESTA_CANDADO text of
                    None \<Rightarrow> []
                  | Some (m, g) \<Rightarrow>
                      candado_detalles text
                        (BasePlugin_extractNumbers (group_text g 1))
                        (amount_of (group_text g 2))
                        (case cap g 3 of
                           None \<Rightarrow> None
                         | Some s \<Rightarrow> if s = [] then None else Some (amount_of s))
                        (amount_of (group_text g 4)))
                 (ctx_totalDeclarado ctx) (ctx_lineas ctx) no_jugada_extras))"

text \<open>
  \<open>PATTERNS.PARLE_EXPLICITO\<close>: \<open>/(\d{2,4})\s*[*x]\s*(\d{2,4})/gi\<close>.  The expression has the
  flag \<open>g\<close> and is shared, so \<open>matchAll\<close> and \<open>test\<close> start at its \<open>lastIndex\<close>.
\<close>

definition PARLE_EXPLICITO :: rx where
  "PARLE_EXPLICITO =
     rx_seqs [rx_group 1 (rx_rep 2 4 rx_digit), rx_star rx_space,
              rx_char (\<lambda>c. c = CHR ''*'' \<or> fold_ascii c = CHR ''x''),
              rx_star rx_space, rx_group 2 (rx_rep 2 4 rx_digit)]"

text \<open>\<open>/parle\s+con\s+(\d+(?:[.,]\d+)?)/i\<close>\<close>

definition PARLE_CON :: rx where
  "PARLE_CON =
     rx_seqs [rx_lit_ci ''parle'', rx_plus rx_space, rx_lit_ci ''con'', rx_plus rx_space,
              rx_group 1 AMOUNT]"

text \<open>\<open>/\bp\s*(\d+(?:[.,]\d+)?)\s*$/i\<close> and \<open>/\bp\s*\d+\s*$/i\<close>\<close>

definition PARLE_INLINE_END :: rx where
  "PARLE_INLINE_END =
     rx_seqs [rx_wordb, rx_lit_ci ''p'', rx_star rx_space, rx_group 1 AMOUNT,
              rx_star rx_space, rx_eol]"

definition PARLE_INLINE_TAIL :: rx where
  "PARLE_INLINE_TAIL =
     rx_seqs [rx_wordb, rx_lit_ci ''p'', rx_star rx_space, rx_plus rx_digit,
              rx_star rx_space, rx_eol]"

text \<open>
  \<open>APUESTA_PATTERNS.PARLE_COMPUESTO.pattern\<close>:
  \<open>/(\d{2}(?:\s+\d{2})*)\s+con\s+(\d+(?:[.,]\d+)?)\s+p\s*(\d+(?:[.,]\d+)?)/i\<close>
\<close>

definition PARLE_COMPUESTO :: rx where
  "PARLE_COMPUESTO =
     rx_seqs [rx_group 1 PAIRS_OF_DIGITS,
              rx_plus rx_space, rx_lit_ci ''con'', rx_plus rx_space,
              rx_group 2 AMOUNT,
              rx_plus rx_space, rx_lit_ci ''p'', rx_star rx_space,
              rx_group 3 AMOUNT]"

text \<open>\<open>s.replace(re, '')\<close> for an expression without the flag \<open>g\<close>: the first match goes.\<close>

definition remove_first :: "rx \<Rightarrow> string \<Rightarrow> string" where
  "remove_first a s =
     (case rx_search a [] s of
        None \<Rightarrow> s
      | Some (l, l', r', g) \<Rightarrow> rev l @ r')"

text \<open>\<open>re.test(s)\<close> and \<open>s.matchAll(re)\<close> for an expression with the flag \<open>g\<close>.\<close>

definition rx_test_from :: "rx \<Rightarrow> nat \<Rightarrow> string \<Rightarrow> bool" where
  "rx_test_from a lastIndex s =
     (lastIndex \<le> length s \<and> rx_search a (rev (take lastIndex s)) (drop lastIndex s) \<noteq> None)"

definition rx_match_all_from :: "rx \<Rightarrow> nat \<Rightarrow> string \<Rightarrow> (string \<times> caps) list" where
  "rx_match_all_from a lastIndex s =
     (if lastIndex \<le> length s
      then rx_match_all a (rev (take lastIndex s)) (drop lastIndex s) else [])"

text \<open>The three parts of \<open>ParlePlugin.process\<close>.\<close>

definition parle_explicitos :: "ParserConfig option \<Rightarrow> nat \<Rightarrow> string \<Rightarrow> DetalleApuesta list" where
  "parle_explicitos cfg lastIndex text =
     map (\<lambda>m. case m of (whole, g) \<Rightarrow>
            (let n1 = padStart2 (group_text g 1);
                 n2 = padStart2 (group_text g 2);
                 unitario = (case rx_match PARLE_CON text of
                               None \<Rightarrow> default_monto cfg
                             | Some (w, h) \<Rightarrow> amount_of (group_text h 1))
             in createDetalle Parle [n1, n2] unitario text None
                  \<lparr>x_monto = None, x_combinaciones = Some 1, x_pares = Some [(n1, n2)]\<rparr>))
       (rx_match_all_from PARLE_EXPLICITO lastIndex text)"

definition parle_inline :: "nat \<Rightarrow> string \<Rightarrow> DetalleApuesta list" where
  "parle_inline lastIndex text =
     (case rx_match PARLE_INLINE_END text of
        None \<Rightarrow> []
      | Some (w, g) \<Rightarrow>
          if rx_test_from PARLE_EXPLICITO lastIndex text then []
          else
            (let unitario = amount_of (group_text g 1);
                 ns = BasePlugin_extractNumbers (remove_first PARLE_INLINE_TAIL text)
             in if length ns \<ge> 2
                then [createDetalle Parle ns unitario text None
                        \<lparr>x_monto = None,
                         x_combinaciones = Some (calculateCombinations (length ns)),
                         x_pares = None\<rparr>]
                else []))"

definition parle_compuesto :: "string \<Rightarrow> DetalleApuesta list" where
  "parle_compuesto text =
     (case rx_match PARLE_COMPUESTO text of
        None \<Rightarrow> []
      | Some (w, g) \<Rightarrow>
          (let ns = BasePlugin_extractNumbers (group_text g 1);
               montoFijo = amount_of (group_text g 2);
               montoParle = amount_of (group_text g 3)
           in (if length ns > 0 \<and> \<not> isNaN montoFijo
               then [createDetalle Fijo ns montoFijo text None no_extras] else []) @
              (if length ns \<ge> 2 \<and> \<not> isNaN montoParle
               then [createDetalle Parle ns montoParle text None
                       \<lparr>x_monto = None,
                        x_combinaciones = Some (calculateCombinations (length ns)),
                        x_pares = None\<rparr>]
               else [])))"

definition ParlePlugin_process ::
  "ParserConfig option \<Rightarrow> nat \<Rightarrow> string \<Rightarrow> PluginContext \<Rightarrow> message + Jugada" where
  "ParlePlugin_process cfg lastIndex text ctx =
     (case ensureInitialized ''parle-plugin'' cfg of
        Inl e \<Rightarrow> Inl e
      | Inr u \<Rightarrow>
          Inr (createJugada (ctx_jugador ctx)
                 (parle_explicitos cfg lastIndex text @ parle_inline lastIndex text @
                  parle_compuesto text)
                 (ctx_totalDeclarado ctx) (ctx_lineas ctx)
                 \<lparr>x_warnings = Some [], x_errors = None\<rparr>))"

text \<open>The contexts the examples run in: the one line, no name, no declared total.\<close>

definition line_context :: "string \<Rightarrow> PluginContext" where
  "line_context text =
     \<lparr>ctx_config = DEFAULT_CONFIG, ctx_jugador = ''Desconocido'',
      ctx_totalDeclarado = None, ctx_lineas = [text]\<rparr>"

section \<open>Preprocessor (src/preprocessor.ts)\<close>

subsection \<open>Decimal numerals\<close>

definition digit_char :: "nat \<Rightarrow> char" where
  "digit_char n = char_of (48 + n)"

text \<open>\<open>n.toString()\<close> for a natural number.\<close>

fun show_nat :: "nat \<Rightarrow> string" where
  "show_nat n = (if n < 10 then [digit_char n] else show_nat (n div 10) @ [digit_char (n mod 10)])"

declare show_nat.simps [simp del]

text \<open>
  \<open>parseInt(s, 10)\<close> on text without a sign (every caller passes a group of digits):
  \<open>None\<close> is \<open>NaN\<close>.
\<close>

definition parseInt10 :: "string \<Rightarrow> nat option" where
  "parseInt10 s =
     (let ds = takeWhile is_digit (dropWhile is_space s)
      in if ds = [] then None else Some (digits_val ds))"

text \<open>\<open>xs.join(' ')\<close>\<close>

fun join_spaces :: "string list \<Rightarrow> string" where
  "join_spaces [] = []"
| "join_spaces [x] = x"
| "join_spaces (x # y # ys) = x @ CHR '' '' # join_spaces (y # ys)"

subsection \<open>normalizeSpaces\<close>

definition const_text :: "string \<Rightarrow> string \<Rightarrow> caps \<Rightarrow> string" where
  "const_text s m g = s"

definition group1 :: "string \<Rightarrow> caps \<Rightarrow> string" where
  "group1 m g = group_text g 1"

definition CR :: char where "CR = CHR 0x0D"
definition LF :: char where "LF = CHR 0x0A"
definition TAB :: char where "TAB = CHR 0x09"

text \<open>The members below 256 of the class of blanks: the space and the no-break space U+00A0.\<close>

definition is_blank :: "char \<Rightarrow> bool" where
  "is_blank c \<longleftrightarrow> code c = 32 \<or> code c = 160"

text \<open>\<open>[*x\<times>\-+.]\<close>; the multiplication sign is U+00D7.\<close>

definition is_operator :: "char \<Rightarrow> bool" where
  "is_operator c \<longleftrightarrow>
     c = CHR ''*'' \<or> c = CHR ''x'' \<or> code c = 215 \<or> c = CHR ''-'' \<or> c = CHR ''+'' \<or> c = CHR ''.''"

definition normalizeSpaces :: "string \<Rightarrow> string" where
  "normalizeSpaces text =
     (let t1 = replace_all (rx_seq (rx_char (\<lambda>c. c = CR)) (rx_char (\<lambda>c. c = LF))) (const_text [LF]) text;
          t2 = replace_all (rx_char (\<lambda>c. c = CR)) (const_text [LF]) t1;
          t3 = replace_all (rx_seq (rx_rep 3 3 (rx_char (\<lambda>c. c = LF))) (rx_star (rx_char (\<lambda>c. c = LF))))
                 (const_text [LF, LF]) t2;
          t4 = replace_all (rx_char (\<lambda>c. c = TAB)) (const_text '' '') t3;
          t5 = replace_all (rx_plus (rx_char is_blank)) (const_text '' '') t4;
          t6 = join_lines (map trim (split_lines t5));
          t7 = replace_all (rx_seqs [rx_star rx_space, rx_group 1 (rx_char is_operator), rx_star rx_space])
                 group1 t6
      in replace_all (rx_seq (rx_char (\<lambda>c. c = CHR '','')) (rx_group 1 (rx_char (\<lambda>c. \<not> is_space c))))
           (\<lambda>m g. '', '' @ group_text g 1) t7)"

subsection \<open>normalizeSpecialCharacters\<close>

text \<open>
  The members below 256 of \<open>[oO\<dots>]\<close> (o, O, and the slashed o U+00F8 and U+00D8),
  \<open>[lI|]\<close>, and the quotes (apostrophe, double quote, backquote, acute accent U+00B4).
\<close>

definition is_zero_variant :: "char \<Rightarrow> bool" where
  "is_zero_variant c \<longleftrightarrow> c = CHR ''o'' \<or> c = CHR ''O'' \<or> code c = 248 \<or> code c = 216"

definition is_one_variant :: "char \<Rightarrow> bool" where
  "is_one_variant c \<longleftrightarrow> c = CHR ''l'' \<or> c = CHR ''I'' \<or> c = CHR ''|''"

definition is_quote :: "char \<Rightarrow> bool" where
  "is_quote c \<longleftrightarrow> code c = 39 \<or> code c = 34 \<or> code c = 96 \<or> code c = 180"

text \<open>\<open>lines.map((line, index) => ...)\<close>: only the first line can keep its case.\<close>

fun lower_lines :: "string list \<Rightarrow> string list" where
  "lower_lines [] = []"
| "lower_lines (first # rest) =
     (if Preprocessor_isNombreJugador first then first else toLowerCase first) #
     map toLowerCase rest"

definition normalizeSpecialCharacters :: "string \<Rightarrow> string" where
  "normalizeSpecialCharacters text =
     (let t1 = replace_all (rx_char is_zero_variant) (const_text ''0'') text;
          t2 = replace_all (rx_char is_one_variant) (const_text ''1'') t1;
          t3 = replace_all (rx_char (\<lambda>c. code c = 215)) (const_text ''x'') t2;
          t4 = replace_all (rx_char is_quote) (const_text []) t3
      in join_lines (lower_lines (split_lines t4)))"

subsection \<open>expandPatterns\<close>

text \<open>\<open>PATTERNS.VOLTEO\<close>: \<open>/(\d{2,4})\s*v\b/gi\<close>\<close>

definition VOLTEO :: rx where
  "VOLTEO = rx_seqs [rx_group 1 (rx_rep 2 4 rx_digit), rx_star rx_space, rx_lit_ci ''v'', rx_wordb]"

text \<open>\<open>PATTERNS.RANGO\<close>: \<open>/(\d{1,2})\s*al\s*(\d{1,2})/gi\<close>\<close>

definition RANGO :: rx where
  "RANGO =
     rx_seqs [rx_group 1 (rx_rep 1 2 rx_digit), rx_star rx_space, rx_lit_ci ''al'',
              rx_star rx_space, rx_group 2 (rx_rep 1 2 rx_digit)]"

text \<open>\<open>PATTERNS.DECENA\<close>: \<open>/\bd\s*(\d{1,2})\b/gi\<close>, and \<open>PATTERNS.TERMINAL\<close> with \<open>t\<close>.\<close>

definition DECENA :: rx where
  "DECENA =
     rx_seqs [rx_wordb, rx_lit_ci ''d'', rx_star rx_space, rx_group 1 (rx_rep 1 2 rx_digit),
              rx_wordb]"

definition TERMINAL :: rx where
  "TERMINAL =
     rx_seqs [rx_wordb, rx_lit_ci ''t'', rx_star rx_space, rx_group 1 (rx_rep 1 2 rx_digit),
              rx_wordb]"

text \<open>\<open>PATTERNS.PARES_RELATIVOS\<close>: \<open>/(\d{2,4})\s*pr\s*(\d{1,3})/gi\<close>\<close>

definition PARES_RELATIVOS :: rx where
  "PARES_RELATIVOS =
     rx_seqs [rx_group 1 (rx_rep 2 4 rx_digit), rx_star rx_space, rx_lit_ci ''pr'',
              rx_star rx_space, rx_group 2 (rx_rep 1 3 rx_digit)]"

text \<open>
  \<open>PATTERNS.CENTENAS_TODAS\<close>:
  \<open>/(.+?)\s*por\s*todas?\s*(?:las?\s*)?centenas?(?:\s+con\s+(\d+(?:[.,]\d+)?))?/gi\<close>
\<close>

definition CENTENAS_TODAS :: rx where
  "CENTENAS_TODAS =
     rx_seqs [rx_group 1 (rx_lazy_plus rx_dot), rx_star rx_space, rx_lit_ci ''por'',
              rx_star rx_space, rx_lit_ci ''toda'', rx_opt (rx_lit_ci ''s''), rx_star rx_space,
              rx_opt (rx_seqs [rx_lit_ci ''la'', rx_opt (rx_lit_ci ''s''), rx_star rx_space]),
              rx_lit_ci ''centena'', rx_opt (rx_lit_ci ''s''),
              rx_opt (rx_seqs [rx_plus rx_space, rx_lit_ci ''con'', rx_plus rx_space,
                               rx_group 2 AMOUNT])]"

definition expandVolteos :: "string \<Rightarrow> string" where
  "expandVolteos text =
     replace_all VOLTEO
       (\<lambda>m g. let normalized = padStart2 (group_text g 1)
               in normalized @ '' '' @ rev normalized) text"

text \<open>The loops \<open>for (let i = inicio; i <= fin; i++)\<close> of the expansions.\<close>

definition expandRanges :: "string \<Rightarrow> string" where
  "expandRanges text =
     replace_all RANGO
       (\<lambda>m g. case (parseInt10 (group_text g 1), parseInt10 (group_text g 2)) of
                 (Some inicio, Some fin) \<Rightarrow>
                   if inicio > fin then m
                   else join_spaces (map (\<lambda>i. padStart2 (show_nat i)) [inicio ..< Suc fin])
               | _ \<Rightarrow> m) text"

definition expandDecenas :: "string \<Rightarrow> string" where
  "expandDecenas text =
     replace_all DECENA
       (\<lambda>m g. case parseInt10 (group_text g 1) of
                 None \<Rightarrow> join_spaces (map (\<lambda>decena. padStart2 (show_nat decena @ ''NaN'')) [0 ..< 10])
               | Some n \<Rightarrow>
                   join_spaces (map (\<lambda>decena. padStart2 (show_nat decena @ show_nat (n mod 10)))
                                  [0 ..< 10])) text"

definition expandTerminales :: "string \<Rightarrow> string" where
  "expandTerminales text =
     replace_all TERMINAL
       (\<lambda>m g. case parseInt10 (group_text g 1) of
                 None \<Rightarrow> join_spaces (map (\<lambda>unidad. padStart2 (''NaN'' @ show_nat unidad)) [0 ..< 10])
               | Some n \<Rightarrow>
                   join_spaces (map (\<lambda>unidad. padStart2 (show_nat (n mod 10) @ show_nat unidad))
                                  [0 ..< 10])) text"

definition expandParesRelativos :: "string \<Rightarrow> string" where
  "expandParesRelativos text =
     replace_all PARES_RELATIVOS
       (\<lambda>m g. let baseNormalized = padStart2 (group_text g 1)
               in case parseInt10 (group_text g 2) of
                    None \<Rightarrow> []
                  | Some n \<Rightarrow>
                      join_spaces (map (\<lambda>i. baseNormalized @ padStart2 (show_nat i))
                                     [1 ..< Suc (min n 100)])) text"

definition expandCentenasTodas :: "string \<Rightarrow> string" where
  "expandCentenasTodas text =
     replace_all CENTENAS_TODAS
       (\<lambda>m g. let ns = Preprocessor_extractNumbers (group_text g 1);
                   centenas = concat (map (\<lambda>numero. if length numero = 2
                                            then map (\<lambda>centena. show_nat centena @ numero) [0 ..< 10]
                                            else []) ns);
                   montoPart = (case cap g 2 of
                                  None \<Rightarrow> []
                                | Some s \<Rightarrow> if s = [] then [] else '' con '' @ s)
               in join_spaces centenas @ montoPart) text"

definition expandPatterns :: "string \<Rightarrow> string" where
  "expandPatterns text =
     expandCentenasTodas (expandParesRelativos (expandTerminales (expandDecenas
       (expandRanges (expandVolteos text)))))"

subsection \<open>normalizeAmounts\<close>

text \<open>The members below 256 of the currency class: dollar and pound (U+00A3).\<close>

definition is_currency :: "char \<Rightarrow> bool" where
  "is_currency c \<longleftrightarrow> code c = 36 \<or> code c = 163"

text \<open>\<open>/\b(\d+)\s*(?:pesos?|bs|bss?)\b/gi\<close>\<close>

definition PESOS :: rx where
  "PESOS =
     rx_seqs [rx_wordb, rx_group 1 (rx_plus rx_digit), rx_star rx_space,
              rx_alts [rx_seq (rx_lit_ci ''peso'') (rx_opt (rx_lit_ci ''s'')),
                       rx_lit_ci ''bs'',
                       rx_seq (rx_lit_ci ''bs'') (rx_opt (rx_lit_ci ''s''))],
              rx_wordb]"

definition normalizeAmounts :: "ParserConfig \<Rightarrow> string \<Rightarrow> string" where
  "normalizeAmounts cfg text =
     (let t1 = replace_all (rx_seqs [rx_group 1 rx_digit, rx_char (\<lambda>c. c = CHR '',''), rx_group 2 rx_digit])
                 (\<lambda>m g. group_text g 1 @ decimalSeparator cfg @ group_text g 2) text;
          t2 = replace_all (rx_seq (rx_group 1 (rx_lit_ci ''con'')) (rx_group 2 rx_digit))
                 (\<lambda>m g. group_text g 1 @ '' '' @ group_text g 2) t1;
          t3 = replace_all (rx_seqs [rx_group 1 rx_digit, rx_star rx_space, rx_group 2 (rx_lit_ci ''y''),
                                     rx_star rx_space, rx_group 3 rx_digit])
                 (\<lambda>m g. group_text g 1 @ '' '' @ group_text g 2 @ '' '' @ group_text g 3) t2;
          t4 = replace_all (rx_char is_currency) (const_text []) t3
      in replace_all PESOS group1 t4)"

subsection \<open>cleanup\<close>

text \<open>
  The class kept by \<open>/[^\d\s\n.,a-z...A-Z...\-*xconypdealtprv]/g\<close>: digits, white space,
  point, comma, the ASCII letters, the fourteen accented letters it lists, hyphen and
  asterisk.
\<close>

definition is_kept :: "char \<Rightarrow> bool" where
  "is_kept c \<longleftrightarrow>
     is_digit c \<or> is_space c \<or> c = CHR ''.'' \<or> c = CHR '','' \<or> is_lower c \<or> is_upper c \<or>
     code c \<in> {225, 233, 237, 243, 250, 241, 252, 193, 201, 205, 211, 218, 209, 220} \<or>
     c = CHR ''-'' \<or> c = CHR ''*''"

definition cleanup :: "string \<Rightarrow> string" where
  "cleanup text =
     (let t1 = replace_all (rx_alt (rx_seq rx_bol (rx_plus (rx_char (\<lambda>c. c = LF))))
                                   (rx_seq (rx_plus (rx_char (\<lambda>c. c = LF))) rx_eol))
                 (const_text []) text;
          t2 = replace_all (rx_seq (rx_plus (rx_char (\<lambda>c. c = CHR '' ''))) (rx_char (\<lambda>c. c = LF)))
                 (const_text [LF]) t1;
          t3 = replace_all (rx_char (\<lambda>c. \<not> is_kept c)) (const_text []) t2
      in join_lines (filter (\<lambda>line. length (trim line) > 0) (split_lines t3)))"

subsection \<open>process\<close>

definition Preprocessor_process :: "ParserConfig \<Rightarrow> string \<Rightarrow> string" where
  "Preprocessor_process cfg text =
     (let p1 = normalizeSpaces text;
          p2 = normalizeSpecialCharacters p1;
          p3 = (if autoExpand cfg then expandPatterns p2 else p2);
          p4 = normalizeAmounts cfg p3
      in cleanup p4)"

section \<open>Validator (src/validators.ts)\<close>

text \<open>
  Of a \<open>ValidationResult\<close> the model keeps the errors (\<open>valid\<close> is \<open>errors.length === 0\<close>);
  warnings, suggestions and the \<open>info\<close> object do not reach the parse result fields
  modelled below.
\<close>

text \<open>\<open>/^\s*total\b/i\<close>, \<open>/\btotal\b[:\s]*\d+(?:[.,]\d+)?/i\<close>, \<open>/\d/\<close>,
  \<open>/(?:con|de|a)\s*\d+(?:[.,]\d+)?/i\<close>, \<open>/^\d{2,4}$/\<close>, \<open>/\b(parle|candado)\b/i\<close>\<close>

definition TOTAL_LINE :: rx where
  "TOTAL_LINE = rx_seqs [rx_bol, rx_star rx_space, rx_lit_ci ''total'', rx_wordb]"

definition TOTAL_FORMAT :: rx where
  "TOTAL_FORMAT =
     rx_seqs [rx_wordb, rx_lit_ci ''total'', rx_wordb,
              rx_star (rx_char (\<lambda>c. c = CHR '':'' \<or> is_space c)), AMOUNT]"

definition HAS_AMOUNT :: rx where
  "HAS_AMOUNT =
     rx_seqs [rx_alts [rx_lit_ci ''con'', rx_lit_ci ''de'', rx_lit_ci ''a''], rx_star rx_space, AMOUNT]"

definition NUMBER_2_4 :: rx where
  "NUMBER_2_4 = rx_seqs [rx_bol, rx_rep 2 4 rx_digit, rx_eol]"

definition PARLE_OR_CANDADO :: rx where
  "PARLE_OR_CANDADO =
     rx_seqs [rx_wordb, rx_group 1 (rx_alt (rx_lit_ci ''parle'') (rx_lit_ci ''candado'')), rx_wordb]"

definition isTotalLine :: "string \<Rightarrow> bool" where
  "isTotalLine line = rx_test TOTAL_LINE (trim line)"

definition validateTotalLine :: "string \<Rightarrow> bool" where
  "validateTotalLine line = rx_test TOTAL_FORMAT line"

definition hasNumbers :: "string \<Rightarrow> bool" where
  "hasNumbers line = rx_test rx_digit line"

definition hasAmounts :: "string \<Rightarrow> bool" where
  "hasAmounts line = rx_test HAS_AMOUNT line"

definition hasParleOrCandado :: "string \<Rightarrow> bool" where
  "hasParleOrCandado line = rx_test PARLE_OR_CANDADO line"

text \<open>\<open>Validator.extractNumbers\<close>: every match of \<open>/\d{1,4}/g\<close>, padded to two digits.\<close>

definition Validator_extractNumbers :: "string \<Rightarrow> string list" where
  "Validator_extractNumbers line = map (\<lambda>m. padStart2 (fst m)) (rx_match_all DIGITS_1_4 [] line)"

text \<open>\<open>Validator.extractAmounts\<close>: every match of \<open>/\d+(?:[.,]\d+)?/g\<close> that is not \<open>NaN\<close>.\<close>

definition Validator_extractAmounts :: "string \<Rightarrow> jsnum list" where
  "Validator_extractAmounts line =
     filter (\<lambda>a. \<not> isNaN a) (map (\<lambda>m. amount_of (fst m)) (rx_match_all AMOUNT [] line))"

definition validateNumber :: "string \<Rightarrow> bool" where
  "validateNumber num =
     (if \<not> rx_test NUMBER_2_4 num then False
      else if length num = 2 then digits_val num \<le> 99
      else if length num = 3 then digits_val num \<le> 999
      else if length num = 4 then digits_val num \<le> 9999
      else False)"

definition validateParleCandado :: "string \<Rightarrow> nat \<Rightarrow> message list" where
  "validateParleCandado line lineNumber =
     (if length (Validator_extractNumbers line) < 2 then [ParleCandadoMinimo lineNumber] else [])"

definition validateBetLine :: "ParserConfig \<Rightarrow> string \<Rightarrow> nat \<Rightarrow> message list" where
  "validateBetLine cfg line lineNumber =
     (if \<not> hasNumbers line then [SinNumerosLinea lineNumber] else []) @
     (if \<not> hasAmounts line then []
      else concat (map (\<lambda>amount. if js_lt amount (Num 0) \<and> \<not> allowNegative cfg
                                   then [MontoNegativoLinea lineNumber amount] else [])
                     (Validator_extractAmounts line))) @
     concat (map (\<lambda>num. if \<not> validateNumber num then [NumeroInvalidoLinea lineNumber num] else [])
               (Validator_extractNumbers line)) @
     (if hasParleOrCandado line then validateParleCandado line lineNumber else [])"

definition validateLine :: "ParserConfig \<Rightarrow> string \<Rightarrow> nat \<Rightarrow> message list" where
  "validateLine cfg line lineNumber =
     (if trim line = [] then []
      else if isTotalLine line then
        (if \<not> validateTotalLine line then [FormatoTotalInvalido lineNumber] else [])
      else if Validator_isNombreJugador line then []
      else validateBetLine cfg line lineNumber)"

text \<open>\<open>text.split('\n').filter(l => l.trim())\<close>\<close>

definition nonblank_lines :: "string \<Rightarrow> string list" where
  "nonblank_lines text = filter (\<lambda>l. trim l \<noteq> []) (split_lines text)"

definition validateGlobal :: "ParserConfig \<Rightarrow> string \<Rightarrow> message list" where
  "validateGlobal cfg text =
     (let jugadores = filter Validator_isNombreJugador (nonblank_lines text)
      in if length jugadores = 0 then []
         else if int (length jugadores) > maxJugadores cfg
         then [DemasiadosJugadores (length jugadores) (maxJugadores cfg)]
         else [])"

text \<open>The errors of \<open>validateSyntax\<close>; line numbers start at 1.\<close>

definition validateSyntax :: "ParserConfig \<Rightarrow> string \<Rightarrow> message list" where
  "validateSyntax cfg text =
     (let ls = nonblank_lines text
      in if length ls = 0 then [TextoVacio]
         else concat (map (\<lambda>p. validateLine cfg (snd p) (Suc (fst p))) (enumerate 0 ls)) @
              validateGlobal cfg text)"

definition validateDetalle :: "ParserConfig \<Rightarrow> DetalleApuesta \<Rightarrow> message list" where
  "validateDetalle cfg d =
     (if tipo d \<notin> {Fijo, Corrido, Parle, Centena, Candado, Especial} then [TipoInvalido (tipo d)]
      else []) @
     (if length (numeros d) = 0 then [SinNumerosApuesta]
      else concat (map (\<lambda>num. if \<not> validateNumber num then [NumeroInvalido num] else [])
                     (numeros d))) @
     (if isNaN (monto d) then [MontoInvalido]
      else if js_lt (monto d) (Num 0) \<and> \<not> allowNegative cfg then [MontoNegativo (monto d)]
      else []) @
     (if isNaN (montoUnitario d) then [MontoUnitarioInvalido] else []) @
     (case tipo d of
        Parle \<Rightarrow> (if combinaciones d = None then [ParleSinCombinaciones] else [])
      | Candado \<Rightarrow> (if combinaciones d = None then [CandadoSinCombinaciones] else [])
      | Centena \<Rightarrow>
          (let invalidCentenas = filter (\<lambda>n. length n \<noteq> 3) (numeros d)
           in if length invalidCentenas > 0 then [CentenasInvalidas invalidCentenas] else [])
      | _ \<Rightarrow> [])"

text \<open>The errors of \<open>validateJugada\<close>.\<close>

definition validateJugada :: "ParserConfig \<Rightarrow> Jugada \<Rightarrow> message list" where
  "validateJugada cfg j =
     (if js_lt (totalCalculado j) (Num 0) \<and> \<not> allowNegative cfg then [TotalNegativo] else []) @
     concat (map (\<lambda>d. map (DetalleLinea (lineaNumero d)) (validateDetalle cfg d)) (detalles j)) @
     (case totalDeclarado j of
        None \<Rightarrow> []
      | Some declarado \<Rightarrow>
          (let diff = js_abs (js_sub (totalCalculado j) declarado)
           in if js_gt diff (Num (1 / 100)) \<and> validateTotals cfg \<and> \<not> js_lt diff (Num 1)
              then [DiferenciaTotales (totalCalculado j) declarado diff]
              else []))"

section \<open>Parser (src/parser.ts)\<close>

subsection \<open>Results and parser state\<close>

record Summary =
  totalJugadas :: nat
  sum_totalCalculado :: jsnum
  sum_totalDeclarado :: jsnum
  difference :: jsnum
  sum_isValid :: bool

record Metadata =
  originalLength :: nat
  processedLength :: nat
  meta_errors :: "message list"
  cacheStats :: CacheStatsView

text \<open>
  Of a \<open>ParseResult\<close> the model leaves out the wall-clock time, the confidence score,
  the warnings and the per-type statistics.
\<close>

record ParseResult =
  success :: bool
  jugadas :: "Jugada list"
  summary :: Summary
  metadata :: Metadata

text \<open>
  A registered plugin: its two methods may throw, and \<open>process\<close> may return a falsy
  value (\<open>None\<close>).
\<close>

record Plugin =
  plugin_name :: string
  priority :: int
  canProcess :: "string \<Rightarrow> message + bool"
  process :: "string \<Rightarrow> PluginContext \<Rightarrow> message + Jugada option"

text \<open>
  The parser object.  \<open>config_json\<close> stands for \<open>JSON.stringify(this.config)\<close>, which
  the cache key contains and the model does not compute.
\<close>

record Parser =
  parser_config :: ParserConfig
  config_json :: string
  parser_cache :: "ParseResult CacheManager"
  plugins :: "Plugin list"
  isInitialized :: bool

text \<open>The constructor: \<open>registerDefaultPlugins\<close> has an empty body.\<close>

definition new_Parser :: "ParserConfig \<Rightarrow> string \<Rightarrow> Parser" where
  "new_Parser cfg json =
     \<lparr>parser_config = cfg, config_json = json,
      parser_cache = new_CacheManager (cache_options cfg),
      plugins = [], isInitialized = False\<rparr>"

subsection \<open>Cache key\<close>

text \<open>
  \<open>hashString\<close>: \<open>hash = ((hash << 5) - hash) + char; hash = hash & hash\<close> keeps a
  32-bit two's complement value.
\<close>

definition hashString :: "string \<Rightarrow> 32 word" where
  "hashString str = foldl (\<lambda>hash c. (push_bit 5 hash - hash) + of_nat (code c)) 0 str"

definition digit36 :: "nat \<Rightarrow> char" where
  "digit36 n = (if n < 10 then char_of (48 + n) else char_of (87 + n))"

fun show_nat36 :: "nat \<Rightarrow> string" where
  "show_nat36 n = (if n < 36 then [digit36 n] else show_nat36 (n div 36) @ [digit36 (n mod 36)])"

declare show_nat36.simps [simp del]

definition toString36 :: "int \<Rightarrow> string" where
  "toString36 i = (if i < 0 then CHR ''-'' # show_nat36 (nat (- i)) else show_nat36 (nat i))"

definition cacheKey :: "Parser \<Rightarrow> string \<Rightarrow> string" where
  "cacheKey p text = ''parse:'' @ toString36 (sint (hashString text)) @ '':'' @ config_json p"

subsection \<open>Blocks\<close>

text \<open>
  The loop of \<open>extractBloques\<close>; its state is \<open>(bloques, currentBloque, inBloque)\<close>.
\<close>

fun bloques_loop :: "string list \<Rightarrow> string list \<Rightarrow> string list \<Rightarrow> bool \<Rightarrow> string list" where
  "bloques_loop [] bloques current inBloque =
     (if length current > 0 then bloques @ [join_lines current] else bloques)"
| "bloques_loop (line # rest) bloques current inBloque =
     (let trimmed = trim line in
      if trimmed = [] then
        (if inBloque \<and> length current > 0
         then bloques_loop rest (bloques @ [join_lines current]) [] False
         else bloques_loop rest bloques current inBloque)
      else if Validator_isNombreJugador trimmed \<and> \<not> inBloque then
        bloques_loop rest
          (if length current > 0 then bloques @ [join_lines current] else bloques)
          [trimmed] True
      else bloques_loop rest bloques (current @ [line]) True)"

definition extractBloques :: "string \<Rightarrow> string list" where
  "extractBloques text =
     filter (\<lambda>b. length (trim b) > 0) (bloques_loop (split_lines text) [] [] False)"

definition extractJugador :: "string \<Rightarrow> string" where
  "extractJugador bloque =
     (let firstLine = (case split_lines bloque of [] \<Rightarrow> [] | first # rest \<Rightarrow> trim first)
      in if Validator_isNombreJugador firstLine then firstLine else ''Desconocido'')"

text \<open>\<open>/total\s*[:=]?\s*\$?\s*([\d.,]+)/i\<close>\<close>

definition TOTAL_DECLARADO :: rx where
  "TOTAL_DECLARADO =
     rx_seqs [rx_lit_ci ''total'', rx_star rx_space,
              rx_opt (rx_char (\<lambda>c. c = CHR '':'' \<or> c = CHR ''='')), rx_star rx_space,
              rx_opt (rx_char (\<lambda>c. c = CHR ''$'')), rx_star rx_space,
              rx_group 1 (rx_plus (rx_char (\<lambda>c. is_digit c \<or> c = CHR ''.'' \<or> c = CHR '','')))]"

definition extractTotalDeclarado :: "string \<Rightarrow> jsnum option" where
  "extractTotalDeclarado bloque =
     (case rx_match TOTAL_DECLARADO bloque of
        None \<Rightarrow> None
      | Some (m, g) \<Rightarrow> Some (amount_of (group_text g 1)))"

subsection \<open>Standard processing of a block\<close>

text \<open>\<open>parseLinea\<close> returns an empty array whatever it is given.\<close>

definition parseLinea :: "string \<Rightarrow> nat \<Rightarrow> jsnum \<Rightarrow> jsnum \<Rightarrow> message + DetalleApuesta list" where
  "parseLinea linea lineIndex lastFijoMonto lastCorridoMonto = Inr []"

record BloqueState =
  st_detalles :: "DetalleApuesta list"
  st_warnings :: "message list"
  st_errors :: "message list"
  st_totalDeclarado :: "jsnum option"
  st_betTypes :: "TipoApuesta list"
  lastFijoMonto :: jsnum
  lastCorridoMonto :: jsnum

text \<open>\<open>betTypes.add(t)\<close> on a set kept in insertion order.\<close>

definition set_add :: "'a \<Rightarrow> 'a list \<Rightarrow> 'a list" where
  "set_add x xs = (if x \<in> set xs then xs else xs @ [x])"

text \<open>
  The body of the loop over the lines of a block (\<open>i\<close> is the index of the line); a
  thrown error leaves the loop only in strict mode.
\<close>

definition linea_step :: "ParserConfig \<Rightarrow> nat \<Rightarrow> string \<Rightarrow> BloqueState \<Rightarrow> message + BloqueState" where
  "linea_step cfg i linea st =
     (if i = 0 \<and> Validator_isNombreJugador linea then Inr st
      else case rx_match TOTAL_DECLARADO linea of
        Some (m, g) \<Rightarrow> Inr (st\<lparr>st_totalDeclarado := Some (amount_of (group_text g 1))\<rparr>)
      | None \<Rightarrow>
          (case parseLinea linea i (lastFijoMonto st) (lastCorridoMonto st) of
             Inr detallesLinea \<Rightarrow>
               if length detallesLinea > 0 then
                 (let ultimoDetalle = last detallesLinea;
                      st1 = st\<lparr>st_detalles := st_detalles st @ detallesLinea\<rparr>;
                      st2 = (if tipo ultimoDetalle = Fijo
                             then st1\<lparr>lastFijoMonto := montoUnitario ultimoDetalle\<rparr>
                             else if tipo ultimoDetalle = Corrido
                             then st1\<lparr>lastCorridoMonto := montoUnitario ultimoDetalle\<rparr>
                             else st1)
                  in Inr (st2\<lparr>st_betTypes := foldl (\<lambda>s d. set_add (tipo d) s) (st_betTypes st2)
                                                 detallesLinea\<rparr>))
               else Inr st
           | Inl e \<Rightarrow>
               if strictMode cfg then Inl (ErrorLinea (i + 1) e)
               else Inr (st\<lparr>st_warnings := st_warnings st @ [ErrorLinea (i + 1) e]\<rparr>)))"

fun lineas_loop :: "ParserConfig \<Rightarrow> (nat \<times> string) list \<Rightarrow> BloqueState \<Rightarrow> message + BloqueState" where
  "lineas_loop cfg [] st = Inr st"
| "lineas_loop cfg ((i, linea) # rest) st =
     (case linea_step cfg i linea st of
        Inl e \<Rightarrow> Inl e
      | Inr st' \<Rightarrow> lineas_loop cfg rest st')"

text \<open>\<open>detalles.reduce((sum, d) => new Decimal(sum).plus(d.monto).toNumber(), 0)\<close>\<close>

definition parseBloqueStandard :: "ParserConfig \<Rightarrow> string \<Rightarrow> string list \<Rightarrow> nat \<Rightarrow> message + Jugada" where
  "parseBloqueStandard cfg j ls bloqueIdx =
     (case lineas_loop cfg (enumerate 0 ls)
             \<lparr>st_detalles = [], st_warnings = [], st_errors = [], st_totalDeclarado = None,
              st_betTypes = [], lastFijoMonto = defaultMontoFijo cfg,
              lastCorridoMonto = defaultMontoCorrido cfg\<rparr> of
        Inl e \<Rightarrow> Inl e
      | Inr st \<Rightarrow>
          (let total = sum_montos (st_detalles st)
           in Inr \<lparr>jugador = j, totalCalculado = total,
                   totalDeclarado = st_totalDeclarado st,
                   lineas = filter (\<lambda>l. \<not> isTotalLine l) ls,
                   detalles = st_detalles st,
                   isValid = (case st_totalDeclarado st of
                                None \<Rightarrow> True
                              | Some d \<Rightarrow> js_lt (js_abs (js_sub total d)) (Num (1 / 100))),
                   warnings = st_warnings st, errors = st_errors st,
                   lineCount = length ls,
                   numberCount = foldl (\<lambda>s d. s + length (numeros d)) 0 (st_detalles st),
                   betTypes = st_betTypes st,
                   bloqueIndex = None\<rparr>))"

subsection \<open>Plugins first, then standard processing\<close>

definition enrichJugada :: "Jugada \<Rightarrow> nat \<Rightarrow> Jugada" where
  "enrichJugada j bloqueIdx = j\<lparr>bloqueIndex := Some bloqueIdx\<rparr>"

fun try_plugins :: "Plugin list \<Rightarrow> string \<Rightarrow> PluginContext \<Rightarrow> message + Jugada option" where
  "try_plugins [] bloque ctx = Inr None"
| "try_plugins (pl # rest) bloque ctx =
     (case canProcess pl bloque of
        Inl e \<Rightarrow> Inl e
      | Inr False \<Rightarrow> try_plugins rest bloque ctx
      | Inr True \<Rightarrow>
          (case process pl bloque ctx of
             Inl e \<Rightarrow> Inl e
           | Inr None \<Rightarrow> try_plugins rest bloque ctx
           | Inr (Some j) \<Rightarrow> Inr (Some j)))"

definition parseBloque :: "Parser \<Rightarrow> string \<Rightarrow> nat \<Rightarrow> message + Jugada" where
  "parseBloque p bloque bloqueIdx =
     (let ls = filter (\<lambda>l. l \<noteq> []) (map trim (split_lines bloque));
          j = extractJugador bloque;
          ctx = \<lparr>ctx_config = parser_config p, ctx_jugador = j,
                 ctx_totalDeclarado = extractTotalDeclarado bloque,
                 ctx_lineas = filter (\<lambda>l. \<not> Validator_isNombreJugador l \<and> \<not> isTotalLine l) ls\<rparr>
      in case try_plugins (plugins p) bloque ctx of
           Inl e \<Rightarrow> Inl e
         | Inr (Some jugada) \<Rightarrow> Inr (enrichJugada jugada bloqueIdx)
         | Inr None \<Rightarrow> parseBloqueStandard (parser_config p) j ls bloqueIdx)"

subsection \<open>parse\<close>

text \<open>
  The loop over the blocks.  An error thrown while a block is processed is recorded
  with the number of the block, and thrown again in strict mode.
\<close>

fun bloques_fold ::
  "Parser \<Rightarrow> (nat \<times> string) list \<Rightarrow> Jugada list \<Rightarrow> message list \<Rightarrow> message + (Jugada list \<times> message list)" where
  "bloques_fold p [] js errs = Inr (js, errs)"
| "bloques_fold p ((idx, bloque) # rest) js errs =
     (case parseBloque p bloque idx of
        Inr jugada \<Rightarrow>
          (let verrors = validateJugada (parser_config p) jugada
           in bloques_fold p rest (js @ [jugada])
                (if verrors \<noteq> [] \<and> strictMode (parser_config p)
                 then errs @ map (DeJugador (jugador jugada)) verrors else errs))
      | Inl e \<Rightarrow>
          if strictMode (parser_config p) then Inl (ErrorBloque (idx + 1) e)
          else bloques_fold p rest js (errs @ [ErrorBloque (idx + 1) e]))"

text \<open>\<open>j.totalDeclarado || 0\<close>\<close>

definition declarado_or_zero :: "jsnum option \<Rightarrow> jsnum" where
  "declarado_or_zero d = (case d of None \<Rightarrow> Num 0 | Some x \<Rightarrow> if truthy x then x else Num 0)"

definition build_result :: "Parser \<Rightarrow> string \<Rightarrow> string \<Rightarrow> Jugada list \<Rightarrow> message list \<Rightarrow> ParseResult" where
  "build_result p text preprocessed js errs =
     (let tc = foldl (\<lambda>s j. js_add s (totalCalculado j)) (Num 0) js;
          td = foldl (\<lambda>s j. js_add s (declarado_or_zero (totalDeclarado j))) (Num 0) js;
          diff = js_abs (js_sub tc td)
      in \<lparr>success = (length errs = 0), jugadas = js,
          summary = \<lparr>totalJugadas = length js, sum_totalCalculado = tc, sum_totalDeclarado = td,
                     difference = diff, sum_isValid = js_lt diff (Num (1 / 100))\<rparr>,
          metadata = \<lparr>originalLength = length text, processedLength = length preprocessed,
                      meta_errors = errs, cacheStats = getStats (parser_cache p)\<rparr>\<rparr>)"

text \<open>The result built by the \<open>catch\<close> clause of \<open>parse\<close>.\<close>

definition failure_result :: "Parser \<Rightarrow> string \<Rightarrow> message \<Rightarrow> ParseResult" where
  "failure_result p text e =
     \<lparr>success = False, jugadas = [],
      summary = \<lparr>totalJugadas = 0, sum_totalCalculado = Num 0, sum_totalDeclarado = Num 0,
                 difference = Num 0, sum_isValid = False\<rparr>,
      metadata = \<lparr>originalLength = length text, processedLength = 0,
                  meta_errors = [e], cacheStats = getStats (parser_cache p)\<rparr>\<rparr>"

text \<open>
  The \<open>try\<close> block of \<open>parse\<close> after the cache lookup has missed: the thrown error or
  the result, and the parser with its cache updated.
\<close>

definition parse_uncached :: "Parser \<Rightarrow> int \<Rightarrow> string \<Rightarrow> (message + ParseResult) \<times> Parser" where
  "parse_uncached p now text =
     (let cfg = parser_config p;
          preprocessed = Preprocessor_process cfg text;
          validation = validateSyntax cfg preprocessed
      in if validation \<noteq> [] \<and> strictMode cfg then (Inl ValidacionFallida, p)
         else
           (let bloques = extractBloques preprocessed
            in if int (length bloques) > maxJugadores cfg
               then (Inl (MaxJugadoresExcedido (length bloques) (maxJugadores cfg)), p)
               else
                 (case bloques_fold p (enumerate 0 bloques) [] [] of
                    Inl e \<Rightarrow> (Inl e, p)
                  | Inr (js, errs) \<Rightarrow>
                      (let result = build_result p text preprocessed js errs
                       in (Inr result,
                           if enabled (cache_options cfg) \<and> success result
                           then p\<lparr>parser_cache :=
                                    CacheManager_set (cacheKey p text) result None now (parser_cache p)\<rparr>
                           else p)))))"

text \<open>
  \<open>initialize\<close>: the first call cleans the cache.  (The flag is set once the pending
  asynchronous part has run, which is after \<open>parse\<close> has returned; the state returned
  by the model is the state then.)
\<close>

definition initialize :: "Parser \<Rightarrow> int \<Rightarrow> Parser" where
  "initialize p now =
     (if isInitialized p then p
      else p\<lparr>parser_cache := cleanupExpired now (parser_cache p), isInitialized := True\<rparr>)"

text \<open>
  The \<open>try\<close> block: after \<open>initialize\<close> the cache is asked, and a cached result is
  returned as it is.
\<close>

definition parse_try :: "Parser \<Rightarrow> int \<Rightarrow> string \<Rightarrow> (message + ParseResult) \<times> Parser" where
  "parse_try p now text =
     (let p1 = initialize p now
      in if enabled (cache_options (parser_config p1)) then
           (case CacheManager_get (cacheKey p1 text) now (parser_cache p1) of
              (Some cached, c) \<Rightarrow> (Inr cached, p1\<lparr>parser_cache := c\<rparr>)
            | (None, c) \<Rightarrow> parse_uncached (p1\<lparr>parser_cache := c\<rparr>) now text)
         else parse_uncached p1 now text)"

text \<open>\<open>parse\<close>: whatever the \<open>try\<close> block throws is turned into a result.\<close>

definition parse :: "Parser \<Rightarrow> int \<Rightarrow> string \<Rightarrow> ParseResult \<times> Parser" where
  "parse p now text =
     (case parse_try p now text of
        (Inr result, p') \<Rightarrow> (result, p')
      | (Inl e, p') \<Rightarrow> (failure_result p' text e, p'))"

text \<open>\<open>parseJugada(text, options)\<close> of \<open>index.ts\<close>: a new parser for one text.\<close>

definition parseJugada :: "ParserConfig \<Rightarrow> string \<Rightarrow> int \<Rightarrow> string \<Rightarrow> ParseResult" where
  "parseJugada cfg json now text = fst (parse (new_Parser cfg json) now text)"

section \<open>Notions used to state the properties\<close>








definition candado_line :: string where
  "candado_line = ''26 78 98 45 con 1 y 3 candado con 50''"

definition candado_of_line :: DetalleApuesta where
  "candado_of_line =
     \<lparr>tipo = Candado, numeros = [''26'', ''78'', ''98'', ''45''], monto = Num 50,
      montoUnitario = Num (25 / 3), combinaciones = Some 6, pares = None,
      lineaOriginal = candado_line, lineaNumero = None\<rparr>"

definition candado_jugada :: Jugada where
  "candado_jugada =
     \<lparr>jugador = ''Desconocido'', totalCalculado = Num 66, totalDeclarado = None,
      lineas = [candado_line],
      detalles =
        [\<lparr>tipo = Fijo, numeros = [''26'', ''78'', ''98'', ''45''], monto = Num 4,
          montoUnitario = Num 1, combinaciones = None, pares = None,
          lineaOriginal = candado_line, lineaNumero = None\<rparr>,
         \<lparr>tipo = Corrido, numeros = [''26'', ''78'', ''98'', ''45''], monto = Num 12,
          montoUnitario = Num 3, combinaciones = None, pares = None,
          lineaOriginal = candado_line, lineaNumero = None\<rparr>,
         candado_of_line],
      isValid = True, warnings = [], errors = [], lineCount = 1, numberCount = 12,
      betTypes = [Fijo, Corrido, Candado], bloqueIndex = None\<rparr>"



text \<open>
  A token of the number extractors and its surroundings.  \<open>digit_prefix r\<close> is what
  \<open>\d{1,4}\<close> matches at the head of \<open>r\<close>; \<open>word_number r\<close> is what \<open>\d{1,4}\b\<close> matches
  there.  A token is bounded when the text before it does not end, and the text after
  it does not begin, with a digit (for \<open>/\d{1,4}/g\<close>) or a word character (for
  \<open>/\b\d{1,4}\b/g\<close>).
\<close>

definition digit_prefix :: "string \<Rightarrow> string" where
  "digit_prefix r = take 4 (takeWhile is_digit r)"

definition word_number :: "string \<Rightarrow> string option" where
  "word_number r =
     (let m = takeWhile is_digit r
      in if 1 \<le> length m \<and> length m \<le> 4 \<and> \<not> word_at (drop (length m) r) then Some m else None)"

definition digit_bounded :: "string \<Rightarrow> string \<Rightarrow> bool" where
  "digit_bounded pre post \<longleftrightarrow>
     (pre = [] \<or> \<not> is_digit (last pre)) \<and> (post = [] \<or> \<not> is_digit (hd post))"

definition word_bounded :: "string \<Rightarrow> string \<Rightarrow> bool" where
  "word_bounded pre post \<longleftrightarrow>
     (pre = [] \<or> \<not> is_word (last pre)) \<and> (post = [] \<or> \<not> is_word (hd post))"

text \<open>
  \<open>picks a f\<close>: at every position the matcher \<open>a\<close> fails where \<open>f\<close> gives nothing, and
  otherwise its first match is the non-empty prefix that \<open>f\<close> gives.
\<close>

definition picks :: "rx \<Rightarrow> (string \<Rightarrow> string \<Rightarrow> string option) \<Rightarrow> bool" where
  "picks a f \<longleftrightarrow>
     (\<forall>l r. case f l r of
              None \<Rightarrow> a (l, r, []) = []
            | Some m \<Rightarrow> m \<noteq> [] \<and> take (length m) r = m \<and>
                        (\<exists>ms. a (l, r, []) = (rev m @ l, drop (length m) r, []) # ms))"

text \<open>
  \<open>stops_at B f\<close>: a match never runs over a character of the class \<open>B\<close>, so text that
  ends with such a character can be cut off from what follows it.
\<close>

definition stops_at :: "(char \<Rightarrow> bool) \<Rightarrow> (string \<Rightarrow> string \<Rightarrow> string option) \<Rightarrow> bool" where
  "stops_at B f \<longleftrightarrow>
     (\<forall>l pre ys. pre \<noteq> [] \<and> B (last pre) \<longrightarrow>
        f l (pre @ ys) = f l pre \<and> (\<forall>m. f l pre = Some m \<longrightarrow> length m < length pre))"

definition first_digits :: "string \<Rightarrow> string \<Rightarrow> string option" where
  "first_digits l r = (if digit_prefix r = [] then None else Some (digit_prefix r))"

definition first_word_number :: "string \<Rightarrow> string \<Rightarrow> string option" where
  "first_word_number l r = (if word_at l then None else word_number r)"



text \<open>
  \<open>fails_on A a\<close>: the matcher \<open>a\<close> fails wherever the remaining text is made of
  characters of \<open>A\<close>.  \<open>consumes a\<close>: what remains after a match of \<open>a\<close> is made of
  characters of the text it started from.
\<close>

definition fails_on :: "char set \<Rightarrow> rx \<Rightarrow> bool" where
  "fails_on A a \<longleftrightarrow> (\<forall>l r g. set r \<subseteq> A \<longrightarrow> a (l, r, g) = [])"

definition consumes :: "rx \<Rightarrow> bool" where
  "consumes a \<longleftrightarrow> (\<forall>l r g l' r' g'. (l', r', g') \<in> set (a (l, r, g)) \<longrightarrow> set r' \<subseteq> set r)"

section \<open>Properties of the cache statistics\<close>

lemma cleanupExpired_keeps [simp]:
  "hits (stats (cleanupExpired now c)) = hits (stats c)"
  "misses (stats (cleanupExpired now c)) = misses (stats c)"
  "cache_config (cleanupExpired now c) = cache_config c"
  by (simp_all add: cleanupExpired_def)

lemma evictLeastUsed_keeps [simp]:
  "hits (stats (evictLeastUsed c)) = hits (stats c)"
  "misses (stats (evictLeastUsed c)) = misses (stats c)"
  "cache_config (evictLeastUsed c) = cache_config c"
  by (simp_all add: evictLeastUsed_def split: option.splits prod.splits)

lemma CacheManager_set_keeps [simp]:
  "hits (stats (CacheManager_set k v t now c)) = hits (stats c)"
  "misses (stats (CacheManager_set k v t now c)) = misses (stats c)"
  "cache_config (CacheManager_set k v t now c) = cache_config c"
  by (simp_all add: CacheManager_set_def Let_def)

lemma CacheManager_get_counts:
  assumes "CacheManager_get k now c = (r, c')"
  shows "cache_config c' = cache_config c"
    and "hits (stats c') = hits (stats c) + (if r \<noteq> None then 1 else 0)"
    and "misses (stats c') =
           misses (stats c) + (if enabled (cache_config c) \<and> r = None then 1 else 0)"
  using assms
  by (auto simp: CacheManager_get_def split: if_splits option.splits)

text \<open>
  Over any sequence of operations the two counters count the answered and the
  unanswered \<open>get\<close>s (a disabled cache counts nothing).
\<close>

lemma run_ops_counts:
  "run_ops ops c = (rs, c') \<Longrightarrow>
     cache_config c' = cache_config c \<and>
     hits (stats c') = hits (stats c) + length (filter (\<lambda>r. r \<noteq> None) rs) \<and>
     misses (stats c') =
       misses (stats c) +
       (if enabled (cache_config c) then length (filter (\<lambda>r. r = None) rs) else 0)"
proof (induction ops arbitrary: c rs c')
  case Nil
  then show ?case by simp
next
  case (Cons op ops)
  show ?case
  proof (cases op)
    case (Get k now)
    obtain r c1 where g: "CacheManager_get k now c = (r, c1)"
      by (cases "CacheManager_get k now c")
    obtain rs1 c2 where r1: "run_ops ops c1 = (rs1, c2)"
      by (cases "run_ops ops c1")
    from Cons.prems Get g r1 have eq: "rs = r # rs1" "c' = c2" by simp_all
    from Cons.IH [OF r1] CacheManager_get_counts [OF g] eq
    show ?thesis by auto
  next
    case (Set k v t now)
    with Cons.prems have "run_ops ops (CacheManager_set k v t now c) = (rs, c')" by simp
    from Cons.IH [OF this] show ?thesis by simp
  qed
qed

text \<open>
  Claim C9, as the code has it.  After any sequence of \<open>get\<close> and \<open>set\<close> calls on a
  new cache, \<open>hits\<close> is the number of \<open>get\<close>s that returned a value, \<open>misses\<close> the
  number that returned \<open>null\<close> (none are counted while the cache is disabled), and
  the exposed \<open>hitRate\<close> is the percentage \<open>100 * hits / (hits + misses)\<close>, and \<open>0\<close>
  when no \<open>get\<close> has been counted.
\<close>

theorem hitRate_is_percentage:
  "run_ops ops (new_CacheManager cfg) = (rs, c) \<Longrightarrow>
     hits (stats c) = length (filter (\<lambda>r. r \<noteq> None) rs) \<and>
     misses (stats c) = (if enabled cfg then length (filter (\<lambda>r. r = None) rs) else 0) \<and>
     hitRate (getStats c) =
       (if hits (stats c) + misses (stats c) = 0 then 0
        else 100 * (of_nat (hits (stats c)) / of_nat (hits (stats c) + misses (stats c))))"
proof -
  assume r: "run_ops ops (new_CacheManager cfg) = (rs, c)"
  from run_ops_counts [OF r]
  show ?thesis
    by (simp add: new_CacheManager_def getStats_def CacheStats.extend_def
        CacheStatsView.fields_def)
qed

lemma mixed_run_value:
  "fst mixed_run = [Some 7, None, None] \<and>
   hits (stats (snd mixed_run)) = 1 \<and> misses (stats (snd mixed_run)) = 2"
  by (simp add: mixed_run_def mixed_ops_def new_CacheManager_def demo_cache_config_def
      CacheManager_set_def CacheManager_get_def cleanupExpired_def Let_def)

theorem hitRate_is_percentage_witness:
  "run_ops mixed_ops (new_CacheManager demo_cache_config) = (fst mixed_run, snd mixed_run) \<and>
   fst mixed_run = [Some 7, None, None] \<and>
   hitRate (getStats (snd mixed_run)) = 100 / 3"
proof -
  have r: "run_ops mixed_ops (new_CacheManager demo_cache_config) = (fst mixed_run, snd mixed_run)"
    by (simp add: mixed_run_def)
  from hitRate_is_percentage [OF r] mixed_run_value r
  show ?thesis by simp
qed

text \<open>
  The claim as the specification words it (\<open>hit_rate = hits / (hits + misses)\<close>) fails:
  after one \<open>set\<close> and one successful \<open>get\<close> the counters are \<open>1\<close> and \<open>0\<close> and the
  exposed rate is \<open>100\<close>, not \<open>1\<close>.
\<close>

theorem hitRate_not_a_fraction:
  "hits (stats one_hit_cache) = 1 \<and> misses (stats one_hit_cache) = 0 \<and>
   hitRate (getStats one_hit_cache) = 100 \<and>
   hitRate (getStats one_hit_cache) \<noteq>
     of_nat (hits (stats one_hit_cache)) /
     of_nat (hits (stats one_hit_cache) + misses (stats one_hit_cache))"
  by (simp add: one_hit_cache_def one_hit_ops_def new_CacheManager_def demo_cache_config_def
      CacheManager_set_def CacheManager_get_def cleanupExpired_def Let_def getStats_def
      CacheStats.extend_def CacheStatsView.fields_def)

section \<open>The name-line classification of the block segmenter\<close>

text \<open>
  Claim C8 gives the classification an upper bound of 35 on the length of the trimmed
  line.  \<open>Validator.isNombreJugador\<close>, which \<open>extractBloques\<close> calls, has no such
  test: a line of 36 letters is classified as a name, while the preprocessor's copy of
  the heuristic rejects it.
\<close>

theorem segmenter_accepts_36_letters:
  "length (trim thirty_six_As) = 36 \<and>
   Validator_isNombreJugador thirty_six_As \<and>
   \<not> Preprocessor_isNombreJugador thirty_six_As"
  by code_simp

section \<open>Explicit parle\<close>

text \<open>
  Claim C3 at its own example.  \<open>ParlePlugin.process\<close> on \<open>25*33 parle con 5\<close> (the
  shared pattern at \<open>lastIndex = 0\<close>) emits one parle detail with the pair
  \<open>(25, 33)\<close>, one combination and unit amount 5, but \<open>createDetalle\<close> multiplies the
  unit amount by the number of numbers, so the amount is 10 and not 5.
\<close>

theorem explicit_parle_amount_is_doubled:
  "ParlePlugin_process (Some DEFAULT_CONFIG) 0 ''25*33 parle con 5''
       (line_context ''25*33 parle con 5'') =
     Inr \<lparr>jugador = ''Desconocido'', totalCalculado = Num 10, totalDeclarado = None,
          lineas = [''25*33 parle con 5''],
          detalles =
            [\<lparr>tipo = Parle, numeros = [''25'', ''33''], monto = Num 10, montoUnitario = Num 5,
              combinaciones = Some 1, pares = Some [(''25'', ''33'')],
              lineaOriginal = ''25*33 parle con 5'', lineaNumero = None\<rparr>],
          isValid = True, warnings = [], errors = [], lineCount = 1, numberCount = 2,
          betTypes = [Parle], bloqueIndex = None\<rparr>"
  by code_simp

section \<open>Parsing one line and the empty text\<close>

lemma parseBloque_no_plugins:
  "plugins p = [] \<Longrightarrow>
   parseBloque p bloque i =
     parseBloqueStandard (parser_config p) (extractJugador bloque)
       (filter (\<lambda>l. l \<noteq> []) (map trim (split_lines bloque))) i"
  by (simp add: parseBloque_def Let_def)

lemma CacheManager_get_empty:
  "entries c = [] \<Longrightarrow> enabled (cache_config c) \<Longrightarrow>
   CacheManager_get k now c = (None, c\<lparr>stats := (stats c)\<lparr>misses := misses (stats c) + 1\<rparr>\<rparr>)"
  by (simp add: CacheManager_get_def)

lemma DEFAULT_CONFIG_fields:
  "strictMode DEFAULT_CONFIG = False" "maxJugadores DEFAULT_CONFIG = 100"
  "enabled (cache_options DEFAULT_CONFIG) = True"
  "maxSize (cache_options DEFAULT_CONFIG) = 1000"
  by (simp_all add: DEFAULT_CONFIG_def)

lemma process_05_10_con_20:
  "Preprocessor_process DEFAULT_CONFIG ''05 10 con 20'' = ''05 10 c0n 20''"
  by code_simp

lemma validateSyntax_05_10_c0n_20: "validateSyntax DEFAULT_CONFIG ''05 10 c0n 20'' = []"
  by code_simp

lemma extractBloques_05_10_c0n_20: "extractBloques ''05 10 c0n 20'' = [''05 10 c0n 20'']"
  by code_simp

lemma extractJugador_05_10_c0n_20: "extractJugador ''05 10 c0n 20'' = ''Desconocido''"
  by code_simp

lemma lineas_05_10_c0n_20:
  "filter (\<lambda>l. l \<noteq> []) (map trim (split_lines ''05 10 c0n 20'')) = [''05 10 c0n 20'']"
  by code_simp

lemma parseBloqueStandard_05_10_c0n_20:
  "parseBloqueStandard DEFAULT_CONFIG ''Desconocido'' [''05 10 c0n 20''] 0 =
     Inr \<lparr>jugador = ''Desconocido'', totalCalculado = Num 0, totalDeclarado = None,
          lineas = [''05 10 c0n 20''], detalles = [], isValid = True, warnings = [],
          errors = [], lineCount = 1, numberCount = 0, betTypes = [], bloqueIndex = None\<rparr>"
  by code_simp

lemma validateJugada_05_10_c0n_20:
  "validateJugada DEFAULT_CONFIG
     \<lparr>jugador = ''Desconocido'', totalCalculado = Num 0, totalDeclarado = None,
      lineas = [''05 10 c0n 20''], detalles = [], isValid = True, warnings = [],
      errors = [], lineCount = 1, numberCount = 0, betTypes = [], bloqueIndex = None\<rparr> = []"
  by code_simp

text \<open>
  Claim C1 at its input.  A parser built with the default configuration has no plugin
  (\<open>registerDefaultPlugins\<close> is empty) and \<open>parseLinea\<close> returns no detail, so
  \<open>05 10 con 20\<close> gives one Jugada of player \<open>Desconocido\<close> without any detail and
  with total 0, where the claim has one Fijo detail and total 40.  (The preprocessor
  has also turned the \<open>o\<close> of \<open>con\<close> into a zero.)
\<close>

theorem parse_05_10_con_20_has_no_detail:
  "success (parseJugada DEFAULT_CONFIG json now ''05 10 con 20'') \<and>
   jugadas (parseJugada DEFAULT_CONFIG json now ''05 10 con 20'') =
     [\<lparr>jugador = ''Desconocido'', totalCalculado = Num 0, totalDeclarado = None,
       lineas = [''05 10 c0n 20''], detalles = [], isValid = True, warnings = [],
       errors = [], lineCount = 1, numberCount = 0, betTypes = [], bloqueIndex = None\<rparr>] \<and>
   sum_totalCalculado (summary (parseJugada DEFAULT_CONFIG json now ''05 10 con 20'')) = Num 0"
  by (simp add: parseJugada_def parse_def parse_try_def initialize_def new_Parser_def new_CacheManager_def
      cleanupExpired_def CacheManager_get_empty parse_uncached_def process_05_10_con_20
      validateSyntax_05_10_c0n_20 extractBloques_05_10_c0n_20 DEFAULT_CONFIG_fields
      parseBloque_no_plugins extractJugador_05_10_c0n_20 lineas_05_10_c0n_20
      parseBloqueStandard_05_10_c0n_20 validateJugada_05_10_c0n_20 build_result_def Let_def)

lemma process_empty: "Preprocessor_process DEFAULT_CONFIG [] = []"
  by code_simp

lemma validateSyntax_empty: "validateSyntax DEFAULT_CONFIG [] = [TextoVacio]"
  by code_simp

lemma extractBloques_empty: "extractBloques [] = []"
  by code_simp

text \<open>
  Claim C6 at the empty text, under the default configuration.  The syntax validation
  reports \<open>Texto vacio\<close>, but outside strict mode \<open>parse\<close> ignores the validation: no
  block is found, no error is recorded, and the result has \<open>success = true\<close> and an
  empty list of errors.
\<close>

theorem parse_empty_text_succeeds:
  "validateSyntax DEFAULT_CONFIG (Preprocessor_process DEFAULT_CONFIG []) = [TextoVacio] \<and>
   success (parseJugada DEFAULT_CONFIG json now []) \<and>
   jugadas (parseJugada DEFAULT_CONFIG json now []) = [] \<and>
   meta_errors (metadata (parseJugada DEFAULT_CONFIG json now [])) = []"
  by (simp add: parseJugada_def parse_def parse_try_def initialize_def new_Parser_def new_CacheManager_def
      cleanupExpired_def CacheManager_get_empty parse_uncached_def process_empty
      validateSyntax_empty extractBloques_empty DEFAULT_CONFIG_fields build_result_def Let_def)

section \<open>Reconciliation of a Jugada\<close>











section \<open>Candado\<close>

lemma createDetalle_fields [simp]:
  "tipo (createDetalle t ns u l n x) = t"
  "numeros (createDetalle t ns u l n x) = ns"
  "montoUnitario (createDetalle t ns u l n x) = u"
  "combinaciones (createDetalle t ns u l n x) = x_combinaciones x"
  "monto (createDetalle t ns u l n x) =
     (case x_monto x of None \<Rightarrow> js_mul (Num (of_nat (length ns))) u | Some m \<Rightarrow> m)"
  by (simp_all add: createDetalle_def Let_def)

lemma candado_detalles_candado:
  assumes "d \<in> set (candado_detalles text ns mf mc tot)" "tipo d = Candado"
  shows "numeros d = ns \<and> 2 \<le> length ns \<and>
         combinaciones d = Some (length ns * (length ns - 1) div 2) \<and>
         monto d = tot \<and>
         montoUnitario d = js_div tot (Num (of_nat (length ns * (length ns - 1) div 2)))"
proof -
  from assms have n: "2 \<le> length ns"
    by (auto simp: candado_detalles_def split: if_splits)
  then have pos: "0 < length ns * (length ns - 1) div 2"
  proof -
    from n have "2 * 1 \<le> length ns * (length ns - 1)"
      by (intro mult_le_mono) auto
    then show ?thesis by simp
  qed
  from assms n pos show ?thesis
    by (auto simp: candado_detalles_def calculateCombinations_def Let_def no_extras_def
        split: if_splits option.splits)
qed

text \<open>
  Claim C4.  Every candado detail that \<open>CandadoPlugin.process\<close> emits comes from a
  match of the candado pattern; with \<open>n\<close> the number of base numbers extracted from the
  first group, \<open>n\<close> is at least 2, \<open>combinaciones\<close> is \<open>C(n, 2) = n (n - 1) / 2\<close>, the
  amount is the total given after \<open>candado\<close> (the fourth group), and the unit amount is
  that total divided by the number of combinations.
\<close>

theorem candado_detail:
  assumes "CandadoPlugin_process cfg text ctx = Inr j"
    and "d \<in> set (detalles j)" and "tipo d = Candado"
  shows "\<exists>m g. rx_match APUESTA_CANDADO text = Some (m, g) \<and>
           numeros d = BasePlugin_extractNumbers (group_text g 1) \<and>
           2 \<le> length (numeros d) \<and>
           combinaciones d = Some (length (numeros d) choose 2) \<and>
           length (numeros d) choose 2 = length (numeros d) * (length (numeros d) - 1) div 2 \<and>
           monto d = amount_of (group_text g 4) \<and>
           montoUnitario d = js_div (monto d) (Num (of_nat (length (numeros d) choose 2))) \<and>
           (\<forall>t. monto d = Num t \<longrightarrow>
                montoUnitario d = Num (t / of_nat (length (numeros d) choose 2)))"
proof -
  from assms(1) have j: "j = createJugada (ctx_jugador ctx)
                 (case rx_match APUESTA_CANDADO text of
                    None \<Rightarrow> []
                  | Some (m, g) \<Rightarrow>
                      candado_detalles text
                        (BasePlugin_extractNumbers (group_text g 1))
                        (amount_of (group_text g 2))
                        (case cap g 3 of
                           None \<Rightarrow> None
                         | Some s \<Rightarrow> if s = [] then None else Some (amount_of s))
                        (amount_of (group_text g 4)))
                 (ctx_totalDeclarado ctx) (ctx_lineas ctx) no_jugada_extras"
    by (auto simp: CandadoPlugin_process_def split: sum.splits)
  with assms(2) obtain m g where mg: "rx_match APUESTA_CANDADO text = Some (m, g)"
    and d: "d \<in> set (candado_detalles text
                        (BasePlugin_extractNumbers (group_text g 1))
                        (amount_of (group_text g 2))
                        (case cap g 3 of
                           None \<Rightarrow> None
                         | Some s \<Rightarrow> if s = [] then None else Some (amount_of s))
                        (amount_of (group_text g 4)))"
    by (auto simp: createJugada_def Let_def split: option.splits)
  from candado_detalles_candado [OF d assms(3)]
  have f: "numeros d = BasePlugin_extractNumbers (group_text g 1)" "2 \<le> length (numeros d)"
    "combinaciones d = Some (length (numeros d) choose 2)"
    "monto d = amount_of (group_text g 4)"
    "montoUnitario d = js_div (monto d) (Num (of_nat (length (numeros d) choose 2)))"
    by (auto simp: choose_two)
  from f(2) have "0 < length (numeros d) choose 2" by simp
  with f(5) have "\<forall>t. monto d = Num t \<longrightarrow>
                montoUnitario d = Num (t / of_nat (length (numeros d) choose 2))"
    by auto
  with f mg show ?thesis by (auto simp: choose_two)
qed

lemma CandadoPlugin_process_line:
  "CandadoPlugin_process (Some DEFAULT_CONFIG) candado_line (line_context candado_line) =
     Inr candado_jugada"
  by code_simp

theorem candado_detail_witness:
  "CandadoPlugin_process (Some DEFAULT_CONFIG) candado_line (line_context candado_line) =
     Inr candado_jugada \<and>
   candado_of_line \<in> set (detalles candado_jugada) \<and>
   tipo candado_of_line = Candado \<and>
   length (numeros candado_of_line) = 4 \<and>
   combinaciones candado_of_line = Some (4 choose 2) \<and>
   monto candado_of_line = Num 50 \<and>
   montoUnitario candado_of_line = Num (50 / of_nat (4 choose 2))"
proof -
  have a: "candado_of_line \<in> set (detalles candado_jugada)"
    by (simp add: candado_jugada_def)
  have b: "tipo candado_of_line = Candado" "length (numeros candado_of_line) = 4"
    "monto candado_of_line = Num 50"
    by (simp_all add: candado_of_line_def)
  from candado_detail [OF CandadoPlugin_process_line a b(1)] b(2) b(3)
  have "combinaciones candado_of_line = Some (4 choose 2)"
    "montoUnitario candado_of_line = Num (50 / of_nat (4 choose 2))"
    by auto
  with CandadoPlugin_process_line a b show ?thesis by simp
qed

section \<open>parse never throws\<close>






lemma initialize_keeps [simp]:
  "parser_config (initialize p now) = parser_config p"
  "plugins (initialize p now) = plugins p"
  "config_json (initialize p now) = config_json p"
  by (simp_all add: initialize_def)

lemma cacheKey_initialize [simp]: "cacheKey (initialize p now) text = cacheKey p text"
  by (simp add: cacheKey_def)













section \<open>The number extractors\<close>

lemmas rx_defs = rx_seq_def rx_alt_def rx_opt_def rx_eps_def rx_char_def rx_digit_def
  rx_wordb_def rx_group_def

lemma digit_is_word: "is_digit c \<Longrightarrow> is_word c"
  by (simp add: is_word_def)

lemma DIGITS_1_4_tree:
  "DIGITS_1_4 (l, r, g) =
     (case r of
        [] \<Rightarrow> []
      | c1 # r1 \<Rightarrow>
          if \<not> is_digit c1 then []
          else (case r1 of
                  [] \<Rightarrow> [(c1 # l, r1, g)]
                | c2 # r2 \<Rightarrow>
                    if \<not> is_digit c2 then [(c1 # l, r1, g)]
                    else (case r2 of
                            [] \<Rightarrow> [(c2 # c1 # l, r2, g), (c1 # l, r1, g)]
                          | c3 # r3 \<Rightarrow>
                              if \<not> is_digit c3 then [(c2 # c1 # l, r2, g), (c1 # l, r1, g)]
                              else (case r3 of
                                      [] \<Rightarrow> [(c3 # c2 # c1 # l, r3, g), (c2 # c1 # l, r2, g), (c1 # l, r1, g)]
                                    | c4 # r4 \<Rightarrow>
                                        if \<not> is_digit c4
                                        then [(c3 # c2 # c1 # l, r3, g), (c2 # c1 # l, r2, g), (c1 # l, r1, g)]
                                        else [(c4 # c3 # c2 # c1 # l, r4, g), (c3 # c2 # c1 # l, r3, g),
                                              (c2 # c1 # l, r2, g), (c1 # l, r1, g)]))))"
  by (simp add: DIGITS_1_4_def eval_nat_numeral rx_defs split: list.splits)

lemma DIGITS_1_4_none: "digit_prefix r = [] \<Longrightarrow> DIGITS_1_4 (l, r, g) = []"
  by (auto simp: DIGITS_1_4_tree digit_prefix_def split: list.splits if_splits)

lemma DIGITS_1_4_first:
  "digit_prefix r \<noteq> [] \<Longrightarrow>
   \<exists>ms. DIGITS_1_4 (l, r, g) =
           (rev (digit_prefix r) @ l, drop (length (digit_prefix r)) r, g) # ms"
  by (auto simp: DIGITS_1_4_tree digit_prefix_def split: list.splits if_splits)


lemma word_at_Cons [simp]: "word_at (c # cs) = is_word c" "word_at [] = False"
  by (simp_all add: word_at_def)

lemma rx_eps_fun: "rx_eps = (\<lambda>st. [st])"
  by (rule ext) (simp add: rx_eps_def)

lemma rx_seq_eps [simp]: "rx_seq a rx_eps = a"
  by (rule ext) (simp add: rx_seq_def rx_eps_fun)

lemma digits_then_boundary:
  "word_at l \<Longrightarrow>
   concat (map rx_wordb (rx_rep 0 n rx_digit (l, r, g))) =
     (let m = takeWhile is_digit r
      in if length m \<le> n \<and> \<not> word_at (drop (length m) r)
         then [(rev m @ l, drop (length m) r, g)] else [])"
proof (induction n arbitrary: l r)
  case 0
  then show ?case
    by (cases r) (auto simp: rx_eps_def rx_wordb_def Let_def digit_is_word)
next
  case (Suc n)
  show ?case
  proof (cases r)
    case Nil
    with Suc.prems show ?thesis
      by (simp add: rx_opt_def rx_alt_def rx_seq_def rx_digit_def rx_char_def rx_eps_def
          rx_wordb_def)
  next
    case (Cons c cs)
    show ?thesis
    proof (cases "is_digit c")
      case False
      with Cons Suc.prems show ?thesis
        by (simp add: rx_opt_def rx_alt_def rx_seq_def rx_digit_def rx_char_def rx_eps_def
            rx_wordb_def)
    next
      case True
      then have w: "word_at (c # l)" by (simp add: digit_is_word)
      from True Cons Suc.prems Suc.IH [OF w, of cs] show ?thesis
        by (simp add: rx_opt_def rx_alt_def rx_seq_def rx_digit_def rx_char_def rx_eps_def
            rx_wordb_def Let_def digit_is_word)
    qed
  qed
qed

lemma WORD_DIGITS_1_4_char:
  "WORD_DIGITS_1_4 (l, r, g) =
     (if word_at l then []
      else case word_number r of
             None \<Rightarrow> []
           | Some m \<Rightarrow> [(rev m @ l, drop (length m) r, g)])"
proof (cases r)
  case Nil
  then show ?thesis
    by (simp add: WORD_DIGITS_1_4_def eval_nat_numeral rx_seq_def rx_wordb_def rx_digit_def
        rx_char_def word_number_def)
next
  case (Cons c cs)
  show ?thesis
  proof (cases "is_digit c")
    case False
    with Cons show ?thesis
      by (simp add: WORD_DIGITS_1_4_def eval_nat_numeral rx_seq_def rx_wordb_def rx_digit_def
          rx_char_def word_number_def)
  next
    case True
    then have w: "word_at (c # l)" by (simp add: digit_is_word)
    have "WORD_DIGITS_1_4 (l, r, g) =
        (if word_at l then []
         else concat (map rx_wordb (rx_rep 0 (Suc (Suc (Suc 0))) rx_digit (c # l, cs, g))))"
      using True Cons
      by (simp add: WORD_DIGITS_1_4_def eval_nat_numeral)
         (simp add: rx_seq_def rx_wordb_def rx_digit_def rx_char_def digit_is_word)
    with digits_then_boundary [OF w, of "Suc (Suc (Suc 0))" cs g] True Cons show ?thesis
      by (simp add: word_number_def Let_def)
  qed
qed


lemma picks_at:
  "picks a f \<Longrightarrow>
   (case f l r of
      None \<Rightarrow> a (l, r, []) = []
    | Some m \<Rightarrow> m \<noteq> [] \<and> take (length m) r = m \<and>
        (\<exists>ms. a (l, r, []) = (rev m @ l, drop (length m) r, []) # ms))"
  by (simp add: picks_def)

lemma picks_None: "picks a f \<Longrightarrow> f l r = None \<Longrightarrow> a (l, r, []) = []"
  using picks_at [of a f l r] by simp

lemma picks_Some:
  "picks a f \<Longrightarrow> f l r = Some m \<Longrightarrow>
   m \<noteq> [] \<and> take (length m) r = m \<and>
   (\<exists>ms. a (l, r, []) = (rev m @ l, drop (length m) r, []) # ms)"
  using picks_at [of a f l r] by simp

lemma take_digit_prefix: "take (length (digit_prefix r)) r = digit_prefix r"
proof -
  define n where "n = length (takeWhile is_digit r)"
  have n: "n \<le> length r" by (simp add: n_def length_takeWhile_le)
  have tw: "takeWhile is_digit r = take n r" unfolding n_def by (rule takeWhile_eq_take)
  have dp: "digit_prefix r = take (min 4 n) r" by (simp add: digit_prefix_def tw)
  have "length (digit_prefix r) = min 4 n" using n by (simp add: dp)
  then show ?thesis by (simp add: dp)
qed

lemma picks_digits: "picks DIGITS_1_4 first_digits"
  unfolding picks_def
proof (intro allI)
  fix l r
  show "case first_digits l r of
          None \<Rightarrow> DIGITS_1_4 (l, r, []) = []
        | Some m \<Rightarrow> m \<noteq> [] \<and> take (length m) r = m \<and>
            (\<exists>ms. DIGITS_1_4 (l, r, []) = (rev m @ l, drop (length m) r, []) # ms)"
  proof (cases "digit_prefix r = []")
    case True
    then show ?thesis by (simp add: first_digits_def DIGITS_1_4_none)
  next
    case False
    with take_digit_prefix [of r] DIGITS_1_4_first [OF False, of l "[]"] show ?thesis
      by (simp add: first_digits_def)
  qed
qed

lemma word_number_Some:
  "word_number r = Some m \<Longrightarrow> m \<noteq> [] \<and> take (length m) r = m"
proof -
  assume "word_number r = Some m"
  then have m: "m = takeWhile is_digit r" "1 \<le> length m"
    by (simp_all add: word_number_def Let_def split: if_splits)
  from m(2) have "m \<noteq> []" by auto
  moreover have "take (length m) r = m"
    unfolding m(1) by (rule takeWhile_eq_take [symmetric])
  ultimately show ?thesis by simp
qed

lemma picks_word_number: "picks WORD_DIGITS_1_4 first_word_number"
  unfolding picks_def
proof (intro allI)
  fix l r
  show "case first_word_number l r of
          None \<Rightarrow> WORD_DIGITS_1_4 (l, r, []) = []
        | Some m \<Rightarrow> m \<noteq> [] \<and> take (length m) r = m \<and>
            (\<exists>ms. WORD_DIGITS_1_4 (l, r, []) = (rev m @ l, drop (length m) r, []) # ms)"
  proof (cases "word_at l")
    case True
    then show ?thesis by (simp add: first_word_number_def WORD_DIGITS_1_4_char)
  next
    case False
    show ?thesis
    proof (cases "word_number r")
      case None
      with False show ?thesis by (simp add: first_word_number_def WORD_DIGITS_1_4_char)
    next
      case (Some m)
      with False word_number_Some [OF Some] show ?thesis
        by (simp add: first_word_number_def WORD_DIGITS_1_4_char)
    qed
  qed
qed

lemma matched_rev [simp]: "matched l (rev m @ l) = m"
  by (simp add: matched_def)

lemma match_all_Nil: "picks a f \<Longrightarrow> rx_match_all a l [] = []"
proof -
  assume p: "picks a f"
  have "f l [] = None"
  proof (cases "f l []")
    case (Some m)
    from picks_Some [OF p Some] show ?thesis by auto
  qed simp
  from picks_None [OF p this] show ?thesis by simp
qed

lemma match_all_skip:
  "picks a f \<Longrightarrow> f l (c # cs) = None \<Longrightarrow> rx_match_all a l (c # cs) = rx_match_all a (c # l) cs"
  by (simp add: picks_None)

lemma match_all_take:
  assumes "picks a f" "f l r = Some m"
  shows "rx_match_all a l r = (m, []) # rx_match_all a (rev m @ l) (drop (length m) r)"
proof -
  from picks_Some [OF assms] obtain ms where
    m: "m \<noteq> []" "take (length m) r = m" and
    a: "a (l, r, []) = (rev m @ l, drop (length m) r, []) # ms"
    by blast
  from m obtain c cs where r: "r = c # cs" by (cases r) auto
  have "length (take (length m) r) = length m" by (simp only: m(2))
  then have "length m \<le> length r" by simp
  with m(1) r have "length (drop (length m) (c # cs)) < Suc (length cs)"
    by (cases m) auto
  with a r show ?thesis by simp
qed

declare rx_match_all.simps [simp del]

lemma match_all_append:
  assumes p: "picks a f" and s: "stops_at B f"
  shows "pre = [] \<or> B (last pre) \<Longrightarrow>
         rx_match_all a l (pre @ ys) = rx_match_all a l pre @ rx_match_all a (rev pre @ l) ys"
proof (induction "length pre" arbitrary: pre l rule: less_induct)
  case less
  show ?case
  proof (cases pre)
    case Nil
    then show ?thesis by (simp add: match_all_Nil [OF p])
  next
    case (Cons c cs)
    with less.prems have b: "pre \<noteq> []" "B (last pre)" by auto
    from s b have same: "f l (pre @ ys) = f l pre"
      and short: "\<And>m. f l pre = Some m \<Longrightarrow> length m < length pre"
      unfolding stops_at_def by blast+
    show ?thesis
    proof (cases "f l pre")
      case None
      have cs: "cs = [] \<or> B (last cs)" using b Cons by (cases cs) auto
      from None same Cons have "rx_match_all a l (pre @ ys) = rx_match_all a (c # l) (cs @ ys)"
        by (simp add: match_all_skip [OF p])
      moreover from None Cons have "rx_match_all a l pre = rx_match_all a (c # l) cs"
        by (simp add: match_all_skip [OF p])
      moreover have "rx_match_all a (c # l) (cs @ ys) =
                     rx_match_all a (c # l) cs @ rx_match_all a (rev cs @ c # l) ys"
        using less.hyps [of cs "c # l"] Cons cs by simp
      ultimately show ?thesis using Cons by simp
    next
      case (Some m)
      from short [OF Some] have lt: "length m < length pre" .
      let ?rest = "drop (length m) pre"
      from picks_Some [OF p Some] have m: "m \<noteq> []" "take (length m) pre = m" by blast+
      from lt have ne: "?rest \<noteq> []" by simp
      with b have bl: "B (last ?rest)" by (simp add: last_drop lt)
      from m have pm: "pre = m @ ?rest" by (metis append_take_drop_id)
      from m(1) ne have sh: "length ?rest < length pre" by (cases m) auto
      from Some same have "rx_match_all a l (pre @ ys) =
          (m, []) # rx_match_all a (rev m @ l) (drop (length m) (pre @ ys))"
        by (simp add: match_all_take [OF p])
      moreover from lt have "drop (length m) (pre @ ys) = ?rest @ ys" by simp
      moreover from Some have "rx_match_all a l pre = (m, []) # rx_match_all a (rev m @ l) ?rest"
        by (rule match_all_take [OF p])
      moreover have "rx_match_all a (rev m @ l) (?rest @ ys) =
          rx_match_all a (rev m @ l) ?rest @ rx_match_all a (rev ?rest @ rev m @ l) ys"
        using less.hyps [OF sh, of "rev m @ l"] bl by simp
      moreover have "rev ?rest @ rev m @ l = rev pre @ l"
        using pm by (metis append_assoc rev_append)
      ultimately show ?thesis by simp
    qed
  qed
qed


lemma match_all_context:
  assumes p: "picks a f"
    and e1: "\<And>l l' r. E l l' \<Longrightarrow> f l r = f l' r"
    and e2: "\<And>l l' c. E l l' \<Longrightarrow> E (c # l) (c # l')"
    and e3: "\<And>l l' m. m \<noteq> [] \<Longrightarrow> E (rev m @ l) (rev m @ l')"
  shows "E l l' \<Longrightarrow> rx_match_all a l r = rx_match_all a l' r"
proof (induction "length r" arbitrary: r l l' rule: less_induct)
  case less
  show ?case
  proof (cases r)
    case Nil
    then show ?thesis by (simp add: match_all_Nil [OF p])
  next
    case (Cons c cs)
    show ?thesis
    proof (cases "f l r")
      case None
      with e1 [OF less.prems] have "f l' r = None" by simp
      with None Cons less.hyps [of cs "c # l" "c # l'"] e2 [OF less.prems] show ?thesis
        by (simp add: match_all_skip [OF p])
    next
      case (Some m)
      with e1 [OF less.prems] have s': "f l' r = Some m" by simp
      from picks_Some [OF p Some] have m: "m \<noteq> []" by blast
      with Cons have "length (drop (length m) r) < length r" by (cases m) auto
      from less.hyps [OF this e3 [OF m]] match_all_take [OF p Some] match_all_take [OF p s']
      show ?thesis by simp
    qed
  qed
qed

lemma stops_at_digits: "stops_at (\<lambda>c. \<not> is_digit c) first_digits"
  unfolding stops_at_def
proof (intro allI impI conjI)
  fix l pre ys m
  assume a: "pre \<noteq> [] \<and> \<not> is_digit (last pre)"
  then have ex: "last pre \<in> set pre" "\<not> is_digit (last pre)" by simp_all
  then have tw: "takeWhile is_digit (pre @ ys) = takeWhile is_digit pre"
    by (rule takeWhile_append1)
  then show "first_digits l (pre @ ys) = first_digits l pre"
    by (simp add: first_digits_def digit_prefix_def)
  assume "first_digits l pre = Some m"
  then have "m = take 4 (takeWhile is_digit pre)"
    by (simp add: first_digits_def digit_prefix_def split: if_splits)
  moreover from ex have "takeWhile is_digit pre \<noteq> pre"
    by (metis takeWhile_eq_all_conv)
  then have "length (takeWhile is_digit pre) < length pre"
    by (metis length_takeWhile_le le_neq_implies_less takeWhile_eq_take take_all_iff le_refl)
  ultimately show "length m < length pre" by simp
qed


lemma takeWhile_short:
  "x \<in> set xs \<Longrightarrow> \<not> P x \<Longrightarrow> length (takeWhile P xs) < length xs"
proof -
  assume "x \<in> set xs" "\<not> P x"
  then have "takeWhile P xs \<noteq> xs" by (metis takeWhile_eq_all_conv)
  then show ?thesis
    by (metis length_takeWhile_le le_neq_implies_less takeWhile_eq_take take_all_iff le_refl)
qed

lemma word_at_append: "xs \<noteq> [] \<Longrightarrow> word_at (xs @ ys) = word_at xs"
  by (cases xs) simp_all

lemma stops_at_word_number: "stops_at (\<lambda>c. \<not> is_word c) first_word_number"
  unfolding stops_at_def
proof (intro allI impI conjI)
  fix l pre ys m
  assume a: "pre \<noteq> [] \<and> \<not> is_word (last pre)"
  then have ex: "last pre \<in> set pre" "\<not> is_digit (last pre)"
    using digit_is_word by auto
  then have tw: "takeWhile is_digit (pre @ ys) = takeWhile is_digit pre"
    by (rule takeWhile_append1)
  from ex have lt: "length (takeWhile is_digit pre) < length pre"
    by (rule takeWhile_short)
  then have "word_at (drop (length (takeWhile is_digit pre)) (pre @ ys)) =
             word_at (drop (length (takeWhile is_digit pre)) pre)"
    by (simp add: word_at_append)
  with tw show "first_word_number l (pre @ ys) = first_word_number l pre"
    by (simp add: first_word_number_def word_number_def Let_def)
  assume "first_word_number l pre = Some m"
  then have "m = takeWhile is_digit pre"
    by (simp add: first_word_number_def word_number_def Let_def split: if_splits)
  with lt show "length m < length pre" by simp
qed

lemma digits_context: "rx_match_all DIGITS_1_4 l r = rx_match_all DIGITS_1_4 l' r"
  by (rule match_all_context [OF picks_digits, where E = "\<lambda>l l'. True"])
     (simp_all add: first_digits_def)

lemma word_number_context:
  "word_at l = word_at l' \<Longrightarrow>
   rx_match_all WORD_DIGITS_1_4 l r = rx_match_all WORD_DIGITS_1_4 l' r"
proof (rule match_all_context [OF picks_word_number, where E = "\<lambda>l l'. word_at l = word_at l'"])
  fix l l' :: string and m :: string
  assume "m \<noteq> []"
  then show "word_at (rev m @ l) = word_at (rev m @ l')"
    by (simp add: word_at_append)
qed (simp_all add: first_word_number_def)

lemma digits_token:
  assumes "w \<noteq> []" "length w \<le> 4" "\<forall>c \<in> set w. is_digit c" "post = [] \<or> \<not> is_digit (hd post)"
  shows "first_digits l (w @ post) = Some w"
proof -
  from assms(4) have "takeWhile is_digit post = []" by (cases post) auto
  with assms(3) have "takeWhile is_digit (w @ post) = w"
    by (simp add: takeWhile_append2)
  with assms(1,2) show ?thesis by (simp add: first_digits_def digit_prefix_def)
qed

lemma word_number_token:
  assumes "w \<noteq> []" "length w \<le> 4" "\<forall>c \<in> set w. is_digit c" "post = [] \<or> \<not> is_word (hd post)"
    and "\<not> word_at l"
  shows "first_word_number l (w @ post) = Some w"
proof -
  from assms(4) have np: "\<not> word_at post" by (cases post) auto
  then have "takeWhile is_digit post = []" by (cases post) (auto simp: digit_is_word)
  with assms(3) have "takeWhile is_digit (w @ post) = w"
    by (simp add: takeWhile_append2)
  with assms(1,2,5) np show ?thesis
    by (cases w) (simp_all add: first_word_number_def word_number_def Let_def)
qed

lemma Preprocessor_extractNumbers_token:
  assumes "w \<noteq> []" "length w \<le> 4" "\<forall>c \<in> set w. is_digit c" "digit_bounded pre post"
  shows "Preprocessor_extractNumbers (pre @ w @ post) =
         Preprocessor_extractNumbers pre @ push_match w @ Preprocessor_extractNumbers post"
proof -
  from assms(4) have b: "pre = [] \<or> \<not> is_digit (last pre)" "post = [] \<or> \<not> is_digit (hd post)"
    by (simp_all add: digit_bounded_def)
  have "rx_match_all DIGITS_1_4 [] (pre @ w @ post) =
        rx_match_all DIGITS_1_4 [] pre @ rx_match_all DIGITS_1_4 (rev pre @ []) (w @ post)"
    using b(1) by (rule match_all_append [OF picks_digits stops_at_digits])
  also have "rx_match_all DIGITS_1_4 (rev pre @ []) (w @ post) =
        (w, []) # rx_match_all DIGITS_1_4 (rev w @ rev pre @ []) (drop (length w) (w @ post))"
    by (rule match_all_take [OF picks_digits digits_token [OF assms(1-3) b(2)]])
  also have "rx_match_all DIGITS_1_4 (rev w @ rev pre @ []) (drop (length w) (w @ post)) =
        rx_match_all DIGITS_1_4 [] post"
    using digits_context [of "rev w @ rev pre" post "[]"] by simp
  finally show ?thesis by (simp add: Preprocessor_extractNumbers_def)
qed

lemma BasePlugin_extractNumbers_token:
  assumes "w \<noteq> []" "length w \<le> 4" "\<forall>c \<in> set w. is_digit c" "word_bounded pre post"
  shows "BasePlugin_extractNumbers (pre @ w @ post) =
         BasePlugin_extractNumbers pre @ push_match w @ BasePlugin_extractNumbers post"
proof -
  from assms(4) have b: "pre = [] \<or> \<not> is_word (last pre)" "post = [] \<or> \<not> is_word (hd post)"
    by (simp_all add: word_bounded_def)
  from b(1) have l: "\<not> word_at (rev pre @ [])" by (cases pre rule: rev_cases) auto
  have post: "rx_match_all WORD_DIGITS_1_4 (rev w @ rev pre @ []) post =
              rx_match_all WORD_DIGITS_1_4 [] post"
  proof (cases post)
    case Nil
    then show ?thesis by (simp add: match_all_Nil [OF picks_word_number])
  next
    case (Cons c cs)
    with b(2) have "\<not> is_word c" by simp
    then have n: "\<not> is_digit c" using digit_is_word by blast
    then have "first_word_number k (c # cs) = None" for k
      by (simp add: first_word_number_def word_number_def)
    then have "rx_match_all WORD_DIGITS_1_4 k (c # cs) = rx_match_all WORD_DIGITS_1_4 (c # k) cs" for k
      by (rule match_all_skip [OF picks_word_number])
    with Cons word_number_context [of "c # rev w @ rev pre @ []" "[c]" cs] show ?thesis
      by simp
  qed
  have "rx_match_all WORD_DIGITS_1_4 [] (pre @ w @ post) =
        rx_match_all WORD_DIGITS_1_4 [] pre @ rx_match_all WORD_DIGITS_1_4 (rev pre @ []) (w @ post)"
    using b(1) by (rule match_all_append [OF picks_word_number stops_at_word_number])
  also have "rx_match_all WORD_DIGITS_1_4 (rev pre @ []) (w @ post) =
        (w, []) # rx_match_all WORD_DIGITS_1_4 (rev w @ rev pre @ []) (drop (length w) (w @ post))"
    by (rule match_all_take [OF picks_word_number word_number_token [OF assms(1-3) b(2) l]])
  also have "rx_match_all WORD_DIGITS_1_4 (rev w @ rev pre @ []) (drop (length w) (w @ post)) =
        rx_match_all WORD_DIGITS_1_4 [] post"
    using post by simp
  finally show ?thesis by (simp add: BasePlugin_extractNumbers_def)
qed

lemma push_match_lengths: "s \<in> set (push_match m) \<Longrightarrow> length s = 2 \<or> length s = 3"
  by (auto simp: push_match_def split: if_splits)

text \<open>
  Claim C10.  For every text, both extractors return only strings of two or three
  characters.  A single digit standing alone (not next to another digit for
  \<open>Preprocessor.extractNumbers\<close>, not next to a word character for
  \<open>BasePlugin.extractNumbers\<close>) contributes nothing: the result is that of the text
  before it followed by that of the text after it.  Four digits standing alone
  contribute their first two digits and then their last two, in that order, between
  the results of the text before and of the text after.
\<close>

theorem extractors_split_tokens:
  "(\<forall>s \<in> set (Preprocessor_extractNumbers text). length s = 2 \<or> length s = 3) \<and>
   (\<forall>s \<in> set (BasePlugin_extractNumbers text). length s = 2 \<or> length s = 3) \<and>
   (is_digit a \<and> digit_bounded pre post \<longrightarrow>
      Preprocessor_extractNumbers (pre @ [a] @ post) =
      Preprocessor_extractNumbers pre @ Preprocessor_extractNumbers post) \<and>
   (is_digit a \<and> is_digit b \<and> is_digit c \<and> is_digit d \<and> digit_bounded pre post \<longrightarrow>
      Preprocessor_extractNumbers (pre @ [a, b, c, d] @ post) =
      Preprocessor_extractNumbers pre @ [[a, b], [c, d]] @ Preprocessor_extractNumbers post) \<and>
   (is_digit a \<and> word_bounded pre post \<longrightarrow>
      BasePlugin_extractNumbers (pre @ [a] @ post) =
      BasePlugin_extractNumbers pre @ BasePlugin_extractNumbers post) \<and>
   (is_digit a \<and> is_digit b \<and> is_digit c \<and> is_digit d \<and> word_bounded pre post \<longrightarrow>
      BasePlugin_extractNumbers (pre @ [a, b, c, d] @ post) =
      BasePlugin_extractNumbers pre @ [[a, b], [c, d]] @ BasePlugin_extractNumbers post)"
proof (intro conjI impI ballI)
  fix s assume "s \<in> set (Preprocessor_extractNumbers text)"
  then show "length s = 2 \<or> length s = 3"
    by (auto simp: Preprocessor_extractNumbers_def dest: push_match_lengths)
next
  fix s assume "s \<in> set (BasePlugin_extractNumbers text)"
  then show "length s = 2 \<or> length s = 3"
    by (auto simp: BasePlugin_extractNumbers_def dest: push_match_lengths)
next
  assume "is_digit a \<and> digit_bounded pre post"
  then show "Preprocessor_extractNumbers (pre @ [a] @ post) =
      Preprocessor_extractNumbers pre @ Preprocessor_extractNumbers post"
    using Preprocessor_extractNumbers_token [of "[a]" pre post] by (simp add: push_match_def)
next
  assume "is_digit a \<and> is_digit b \<and> is_digit c \<and> is_digit d \<and> digit_bounded pre post"
  then show "Preprocessor_extractNumbers (pre @ [a, b, c, d] @ post) =
      Preprocessor_extractNumbers pre @ [[a, b], [c, d]] @ Preprocessor_extractNumbers post"
    using Preprocessor_extractNumbers_token [of "[a, b, c, d]" pre post]
    by (simp add: push_match_def)
next
  assume "is_digit a \<and> word_bounded pre post"
  then show "BasePlugin_extractNumbers (pre @ [a] @ post) =
      BasePlugin_extractNumbers pre @ BasePlugin_extractNumbers post"
    using BasePlugin_extractNumbers_token [of "[a]" pre post] by (simp add: push_match_def)
next
  assume "is_digit a \<and> is_digit b \<and> is_digit c \<and> is_digit d \<and> word_bounded pre post"
  then show "BasePlugin_extractNumbers (pre @ [a, b, c, d] @ post) =
      BasePlugin_extractNumbers pre @ [[a, b], [c, d]] @ BasePlugin_extractNumbers post"
    using BasePlugin_extractNumbers_token [of "[a, b, c, d]" pre post]
    by (simp add: push_match_def)
qed

lemma token_example:
  "is_digit CHR ''1'' \<and> is_digit CHR ''0'' \<and>
   digit_bounded ''7 '' '' 20'' \<and> word_bounded ''7 '' '' 20'' \<and>
   Preprocessor_extractNumbers ''7 1001 20'' = [''10'', ''01'', ''20''] \<and>
   BasePlugin_extractNumbers ''7 1001 20'' = [''10'', ''01'', ''20''] \<and>
   Preprocessor_extractNumbers ''7 1 20'' = [''20''] \<and>
   BasePlugin_extractNumbers ''7 1 20'' = [''20'']"
  by code_simp

theorem extractors_split_tokens_witness:
  "is_digit CHR ''1'' \<and> is_digit CHR ''0'' \<and>
   digit_bounded ''7 '' '' 20'' \<and> word_bounded ''7 '' '' 20'' \<and>
   ''10'' \<in> set (Preprocessor_extractNumbers ''7 1001 20'') \<and>
   ''10'' \<in> set (BasePlugin_extractNumbers ''7 1001 20'') \<and>
   length ''10'' = 2 \<and>
   Preprocessor_extractNumbers ''7 1 20'' =
     Preprocessor_extractNumbers ''7 '' @ Preprocessor_extractNumbers '' 20'' \<and>
   Preprocessor_extractNumbers ''7 1001 20'' =
     Preprocessor_extractNumbers ''7 '' @ [''10'', ''01''] @ Preprocessor_extractNumbers '' 20'' \<and>
   BasePlugin_extractNumbers ''7 1 20'' =
     BasePlugin_extractNumbers ''7 '' @ BasePlugin_extractNumbers '' 20'' \<and>
   BasePlugin_extractNumbers ''7 1001 20'' =
     BasePlugin_extractNumbers ''7 '' @ [''10'', ''01''] @ BasePlugin_extractNumbers '' 20''"
proof -
  note t = extractors_split_tokens
             [of "''7 1001 20''" "CHR ''1''" "''7 ''" "'' 20''" "CHR ''0''" "CHR ''0''" "CHR ''1''"]
  from token_example have m:
    "''10'' \<in> set (Preprocessor_extractNumbers ''7 1001 20'')"
    "''10'' \<in> set (BasePlugin_extractNumbers ''7 1001 20'')"
    by simp_all
  have l: "length ''10'' = 2" by simp
  have e1: "''7 '' @ [CHR ''1''] @ '' 20'' = ''7 1 20''" by simp
  have e4: "''7 '' @ [CHR ''1'', CHR ''0'', CHR ''0'', CHR ''1''] @ '' 20'' = ''7 1001 20''"
    by simp
  from t token_example have p:
    "Preprocessor_extractNumbers (''7 '' @ [CHR ''1''] @ '' 20'') =
       Preprocessor_extractNumbers ''7 '' @ Preprocessor_extractNumbers '' 20''"
    "Preprocessor_extractNumbers (''7 '' @ [CHR ''1'', CHR ''0'', CHR ''0'', CHR ''1''] @ '' 20'') =
       Preprocessor_extractNumbers ''7 '' @ [[CHR ''1'', CHR ''0''], [CHR ''0'', CHR ''1'']] @
       Preprocessor_extractNumbers '' 20''"
    "BasePlugin_extractNumbers (''7 '' @ [CHR ''1''] @ '' 20'') =
       BasePlugin_extractNumbers ''7 '' @ BasePlugin_extractNumbers '' 20''"
    "BasePlugin_extractNumbers (''7 '' @ [CHR ''1'', CHR ''0'', CHR ''0'', CHR ''1''] @ '' 20'') =
       BasePlugin_extractNumbers ''7 '' @ [[CHR ''1'', CHR ''0''], [CHR ''0'', CHR ''1'']] @
       BasePlugin_extractNumbers '' 20''"
    by blast+
  note q = p(1) [unfolded e1] p(2) [unfolded e4] p(3) [unfolded e1] p(4) [unfolded e4]
  from token_example m l q show ?thesis by blast
qed

section \<open>Preprocessing twice\<close>




subsection \<open>Matchers that fail on a class of characters\<close>




lemma fails_seq1: "fails_on A a \<Longrightarrow> fails_on A (rx_seq a b)"
  by (simp add: fails_on_def rx_seq_def)

lemma fails_seq2:
  assumes a: "consumes a" and b: "fails_on A b"
  shows "fails_on A (rx_seq a b)"
proof -
  have "rx_seq a b (l, r, g) = []" if r: "set r \<subseteq> A" for l r g
  proof -
    have "b st = []" if st: "st \<in> set (a (l, r, g))" for st
    proof -
      obtain l' r' g' where e: "st = (l', r', g')" by (cases st)
      with a st have "set r' \<subseteq> set r" unfolding consumes_def by blast
      with r b e show ?thesis unfolding fails_on_def by blast
    qed
    then show ?thesis by (simp add: rx_seq_def)
  qed
  then show ?thesis by (simp add: fails_on_def)
qed




lemma fails_rep: "fails_on A a \<Longrightarrow> fails_on A (rx_rep (Suc m) (Suc n) a)"
  by (simp add: fails_seq1)

lemma fails_seqs1: "fails_on A a \<Longrightarrow> fails_on A (rx_seqs (a # as))"
  by (simp add: fails_seq1)

lemma fails_seqs2: "consumes a \<Longrightarrow> fails_on A (rx_seqs as) \<Longrightarrow> fails_on A (rx_seqs (a # as))"
  by (simp add: fails_seq2)





















































end
